theory Spec2Isabelle
  imports Complex_Main
begin

section \<open>Data model of \<open>src/alerts.py\<close>\<close>

text \<open>
  The protocol snapshots handled by \<open>AlertManager\<close> are Python dictionaries. The code
  reads four keys of them: \<open>'name'\<close> by subscript, and \<open>'price'\<close>, \<open>'tvl'\<close>,
  \<open>'apy'\<close> first with \<open>.get\<close> and then by subscript. \<open>data_fetcher.py\<close> stores
  under the three metric keys \<open>None\<close> or whatever the upstream JSON held, so a metric
  entry is one of: key missing, \<open>None\<close>, a number (an \<open>int\<close>, which includes
  \<open>bool\<close>, or a \<open>float\<close>), or another object (a string, a list, a dictionary), of
  which only its truth value matters here.

  A \<open>float\<close> is an IEEE 754 binary64 value: a finite number, an infinity or a NaN
  (the sign of zero is not kept: no operation of the code tells the two zeros apart).
\<close>

datatype py_error = KeyError | TypeError | ZeroDivisionError | OverflowError | RecursionError

datatype pyfloat = Finite real | PosInf | NegInf | NaN

datatype pynum = PyInt int | PyFloat pyfloat

datatype pyval = Missing | PyNone | Num pynum | Other bool

record snapshot =
  name :: "string option"
  price :: pyval
  tvl :: pyval
  apy :: pyval

datatype metric = Price_metric | Tvl_metric | Apy_metric

datatype severity_level = HIGH | MEDIUM

datatype direction_label = INCREASED | DECREASED

text \<open>
  An alert dictionary. The \<open>'message'\<close> f-string is kept as the four values it is
  rendered from (direction label, magnitude of the change, previous and current value);
  the \<open>'timestamp'\<close> entry, read from the wall clock, is left out.
\<close>

record alert =
  alert_type :: metric
  protocol :: string
  severity :: severity_level
  direction :: direction_label
  magnitude :: pynum
  previous_value :: pynum
  current_value :: pynum

text \<open>
  The fields of an \<open>AlertManager\<close> instance: the switches read from \<open>alerts_config\<close>,
  the environment variables, the three thresholds (finite numbers of the configuration)
  and the mutable \<open>previous_data\<close> dictionary.
\<close>

record alert_manager =
  enabled :: bool
  console :: bool
  discord_webhook :: bool
  email :: bool
  discord_webhook_url :: string
  email_to :: string
  email_from :: string
  smtp_username :: string
  smtp_password :: string
  price_threshold :: real
  tvl_threshold :: real
  apy_threshold :: real
  previous_data :: "string \<rightharpoonup> snapshot"

text \<open>\<open>AlertManager.__init__\<close> on an empty configuration and an empty environment.\<close>

definition default_manager :: alert_manager where
  "default_manager =
     \<lparr>enabled = False, console = True, discord_webhook = False, email = False,
      discord_webhook_url = [], email_to = [], email_from = [],
      smtp_username = [], smtp_password = [],
      price_threshold = 5, tvl_threshold = 10, apy_threshold = 1,
      previous_data = Map.empty\<rparr>"

section \<open>Python arithmetic on numbers\<close>

text \<open>
  Rounding of a real to binary64, to nearest with ties to even: 53 significant bits,
  exponents from \<open>-1022\<close> (below it the spacing stays \<open>2^-1074\<close>) to \<open>1023\<close>, and
  an infinity when the rounded magnitude reaches \<open>2^1024\<close>.
\<close>

definition pow2 :: "int \<Rightarrow> real" where
  "pow2 e = (if 0 \<le> e then 2 ^ nat e else 1 / 2 ^ nat (- e))"

definition expo :: "real \<Rightarrow> int" where
  "expo x = \<lfloor>log 2 \<bar>x\<bar>\<rfloor>"

definition round_half_even :: "real \<Rightarrow> int" where
  "round_half_even q =
     (let f = \<lfloor>q\<rfloor> in
      if q - of_int f < 1 / 2 then f
      else if 1 / 2 < q - of_int f then f + 1
      else if even f then f else f + 1)"

definition to_double :: "real \<Rightarrow> pyfloat" where
  "to_double x =
     (if x = 0 then Finite 0
      else
        let e = max (expo x) (- 1022);
            ulp = pow2 (e - 52);
            r = of_int (round_half_even (x / ulp)) * ulp
        in if pow2 1024 \<le> \<bar>r\<bar> then (if 0 < x then PosInf else NegInf) else Finite r)"

text \<open>The IEEE operations \<open>x - y\<close>, \<open>x / y\<close> (for \<open>y\<close> other than zero) and \<open>x * y\<close>.\<close>

fun float_sub :: "pyfloat \<Rightarrow> pyfloat \<Rightarrow> pyfloat" where
  "float_sub (Finite x) (Finite y) = to_double (x - y)"
| "float_sub NaN y = NaN"
| "float_sub x NaN = NaN"
| "float_sub PosInf PosInf = NaN"
| "float_sub NegInf NegInf = NaN"
| "float_sub PosInf y = PosInf"
| "float_sub NegInf y = NegInf"
| "float_sub (Finite x) PosInf = NegInf"
| "float_sub (Finite x) NegInf = PosInf"

fun float_neg :: "pyfloat \<Rightarrow> pyfloat" where
  "float_neg (Finite x) = Finite (- x)"
| "float_neg PosInf = NegInf"
| "float_neg NegInf = PosInf"
| "float_neg NaN = NaN"

fun float_div :: "pyfloat \<Rightarrow> pyfloat \<Rightarrow> pyfloat" where
  "float_div (Finite x) (Finite y) = to_double (x / y)"
| "float_div NaN y = NaN"
| "float_div x NaN = NaN"
| "float_div (Finite x) PosInf = Finite 0"
| "float_div (Finite x) NegInf = Finite 0"
| "float_div PosInf (Finite y) = (if 0 < y then PosInf else NegInf)"
| "float_div NegInf (Finite y) = (if 0 < y then NegInf else PosInf)"
| "float_div PosInf y = NaN"
| "float_div NegInf y = NaN"

fun float_mul :: "pyfloat \<Rightarrow> pyfloat \<Rightarrow> pyfloat" where
  "float_mul (Finite x) (Finite y) = to_double (x * y)"
| "float_mul NaN y = NaN"
| "float_mul x NaN = NaN"
| "float_mul PosInf (Finite y) = (if y = 0 then NaN else if 0 < y then PosInf else NegInf)"
| "float_mul NegInf (Finite y) = (if y = 0 then NaN else if 0 < y then NegInf else PosInf)"
| "float_mul (Finite x) PosInf = (if x = 0 then NaN else if 0 < x then PosInf else NegInf)"
| "float_mul (Finite x) NegInf = (if x = 0 then NaN else if 0 < x then NegInf else PosInf)"
| "float_mul PosInf PosInf = PosInf"
| "float_mul PosInf NegInf = NegInf"
| "float_mul NegInf PosInf = NegInf"
| "float_mul NegInf NegInf = PosInf"

fun float_abs :: "pyfloat \<Rightarrow> pyfloat" where
  "float_abs (Finite x) = Finite \<bar>x\<bar>"
| "float_abs PosInf = PosInf"
| "float_abs NegInf = PosInf"
| "float_abs NaN = NaN"

text \<open>\<open>x >= t\<close> and \<open>x > 0\<close> for a float \<open>x\<close>; every comparison with a NaN is false.\<close>

fun float_ge :: "pyfloat \<Rightarrow> real \<Rightarrow> bool" where
  "float_ge (Finite x) t = (t \<le> x)"
| "float_ge PosInf t = True"
| "float_ge NegInf t = False"
| "float_ge NaN t = False"

fun float_pos :: "pyfloat \<Rightarrow> bool" where
  "float_pos (Finite x) = (0 < x)"
| "float_pos PosInf = True"
| "float_pos NegInf = False"
| "float_pos NaN = False"

text \<open>
  Conversion of an \<open>int\<close> to \<open>float\<close>, as the mixed operations and the \<open>f\<close> format
  do it: correctly rounded, \<open>OverflowError\<close> beyond the float range.
\<close>

definition int_to_float :: "int \<Rightarrow> py_error + pyfloat" where
  "int_to_float n =
     (case to_double (of_int n) of Finite x \<Rightarrow> Inr (Finite x) | _ \<Rightarrow> Inl OverflowError)"

definition as_float :: "pynum \<Rightarrow> py_error + pyfloat" where
  "as_float v = (case v of PyInt n \<Rightarrow> int_to_float n | PyFloat x \<Rightarrow> Inr x)"

text \<open>\<open>a - b\<close>: exact on two ints, the IEEE subtraction otherwise.\<close>

definition num_sub :: "pynum \<Rightarrow> pynum \<Rightarrow> py_error + pynum" where
  "num_sub a b =
     (case (a, b) of
        (PyInt m, PyInt n) \<Rightarrow> Inr (PyInt (m - n))
      | _ \<Rightarrow>
          (case as_float a of Inl e \<Rightarrow> Inl e | Inr x \<Rightarrow>
          (case as_float b of Inl e \<Rightarrow> Inl e | Inr y \<Rightarrow> Inr (PyFloat (float_sub x y)))))"

text \<open>
  \<open>a / b\<close>, true division: on two ints the correctly rounded quotient, with
  \<open>OverflowError\<close> when it is too large for a float; the IEEE division otherwise;
  \<open>ZeroDivisionError\<close> on a zero divisor.
\<close>

definition num_truediv :: "pynum \<Rightarrow> pynum \<Rightarrow> py_error + pynum" where
  "num_truediv a b =
     (case (a, b) of
        (PyInt m, PyInt n) \<Rightarrow>
          if n = 0 then Inl ZeroDivisionError
          else (case to_double (of_int m / of_int n) of
                  Finite q \<Rightarrow> Inr (PyFloat (Finite q)) | _ \<Rightarrow> Inl OverflowError)
      | _ \<Rightarrow>
          (case as_float a of Inl e \<Rightarrow> Inl e | Inr x \<Rightarrow>
          (case as_float b of Inl e \<Rightarrow> Inl e | Inr y \<Rightarrow>
             if y = Finite 0 then Inl ZeroDivisionError else Inr (PyFloat (float_div x y)))))"

text \<open>\<open>a * b\<close>: exact on two ints, the IEEE multiplication otherwise.\<close>

definition num_mul :: "pynum \<Rightarrow> pynum \<Rightarrow> py_error + pynum" where
  "num_mul a b =
     (case (a, b) of
        (PyInt m, PyInt n) \<Rightarrow> Inr (PyInt (m * n))
      | _ \<Rightarrow>
          (case as_float a of Inl e \<Rightarrow> Inl e | Inr x \<Rightarrow>
          (case as_float b of Inl e \<Rightarrow> Inl e | Inr y \<Rightarrow> Inr (PyFloat (float_mul x y)))))"

definition num_abs :: "pynum \<Rightarrow> pynum" where
  "num_abs a = (case a of PyInt m \<Rightarrow> PyInt \<bar>m\<bar> | PyFloat x \<Rightarrow> PyFloat (float_abs x))"

text \<open>\<open>a >= t\<close> and \<open>a > 0\<close>; Python compares an int with a float by their exact values.\<close>

definition num_ge :: "pynum \<Rightarrow> real \<Rightarrow> bool" where
  "num_ge a t = (case a of PyInt m \<Rightarrow> t \<le> of_int m | PyFloat x \<Rightarrow> float_ge x t)"

definition num_pos :: "pynum \<Rightarrow> bool" where
  "num_pos a = (case a of PyInt m \<Rightarrow> 0 < m | PyFloat x \<Rightarrow> float_pos x)"

text \<open>
  Formatting with \<open>:.2f\<close>, \<open>:.4f\<close> or \<open>:,.0f\<close>: an int is converted to float first,
  which can raise; the text itself is not modelled.
\<close>

definition format_f :: "pynum \<Rightarrow> py_error + unit" where
  "format_f a = (case as_float a of Inl e \<Rightarrow> Inl e | Inr x \<Rightarrow> Inr ())"

section \<open>The three metric checks\<close>

text \<open>
  Truth value of \<open>d.get(key)\<close>: false for a missing key, for \<open>None\<close> and for a zero;
  infinities and NaN are true.
\<close>

definition truthy :: "pyval \<Rightarrow> bool" where
  "truthy v =
     (case v of
        Missing \<Rightarrow> False
      | PyNone \<Rightarrow> False
      | Num (PyInt n) \<Rightarrow> n \<noteq> 0
      | Num (PyFloat x) \<Rightarrow> x \<noteq> Finite 0
      | Other t \<Rightarrow> t)"

text \<open>
  The operand \<open>d[key]\<close> of an arithmetic expression: the subscript raises on a missing
  key, the arithmetic raises \<open>TypeError\<close> on \<open>None\<close> and on an object that is not a
  number.
\<close>

definition operand :: "pyval \<Rightarrow> py_error + pynum" where
  "operand v =
     (case v of
        Missing \<Rightarrow> Inl KeyError
      | PyNone \<Rightarrow> Inl TypeError
      | Other t \<Rightarrow> Inl TypeError
      | Num a \<Rightarrow> Inr a)"

text \<open>\<open>((curr[k] - prev[k]) / prev[k]) * 100\<close>\<close>

definition percent_change :: "pyval \<Rightarrow> pyval \<Rightarrow> py_error + pynum" where
  "percent_change prev cur =
     (case operand cur of Inl e \<Rightarrow> Inl e | Inr c \<Rightarrow>
     (case operand prev of Inl e \<Rightarrow> Inl e | Inr p \<Rightarrow>
     (case num_sub c p of Inl e \<Rightarrow> Inl e | Inr d \<Rightarrow>
     (case num_truediv d p of Inl e \<Rightarrow> Inl e | Inr q \<Rightarrow> num_mul q (PyInt 100)))))"

text \<open>\<open>curr[k] - prev[k]\<close>\<close>

definition point_change :: "pyval \<Rightarrow> pyval \<Rightarrow> py_error + pynum" where
  "point_change prev cur =
     (case operand cur of Inl e \<Rightarrow> Inl e | Inr c \<Rightarrow>
     (case operand prev of Inl e \<Rightarrow> Inl e | Inr p \<Rightarrow> num_sub c p))"

definition direction_of :: "pynum \<Rightarrow> direction_label" where
  "direction_of change = (if num_pos change then INCREASED else DECREASED)"

text \<open>
  The dictionary literal returned by a check; its message formats \<open>abs(change)\<close>,
  \<open>prev[k]\<close> and \<open>curr[k]\<close>, in this order.
\<close>

definition make_alert ::
  "metric \<Rightarrow> string \<Rightarrow> severity_level \<Rightarrow> pynum \<Rightarrow> pyval \<Rightarrow> pyval \<Rightarrow> py_error + alert option" where
  "make_alert m nm sev change prev cur =
     (case format_f (num_abs change) of Inl e \<Rightarrow> Inl e | Inr u \<Rightarrow>
     (case operand prev of Inl e \<Rightarrow> Inl e | Inr p \<Rightarrow>
     (case format_f p of Inl e \<Rightarrow> Inl e | Inr u \<Rightarrow>
     (case operand cur of Inl e \<Rightarrow> Inl e | Inr c \<Rightarrow>
     (case format_f c of Inl e \<Rightarrow> Inl e | Inr u \<Rightarrow>
        Inr (Some \<lparr>alert_type = m, protocol = nm, severity = sev,
                   direction = direction_of change, magnitude = num_abs change,
                   previous_value = p, current_value = c\<rparr>))))))"

definition check_price_change ::
  "alert_manager \<Rightarrow> string \<Rightarrow> snapshot \<Rightarrow> snapshot \<Rightarrow> py_error + alert option" where
  "check_price_change self nm prev cur =
     (if truthy (price prev) \<and> truthy (price cur) then
        (case percent_change (price prev) (price cur) of
           Inl e \<Rightarrow> Inl e
         | Inr change_percent \<Rightarrow>
             if num_ge (num_abs change_percent) (price_threshold self) then
               make_alert Price_metric nm
                 (if num_ge (num_abs change_percent) 10 then HIGH else MEDIUM)
                 change_percent (price prev) (price cur)
             else Inr None)
      else Inr None)"

definition check_tvl_change ::
  "alert_manager \<Rightarrow> string \<Rightarrow> snapshot \<Rightarrow> snapshot \<Rightarrow> py_error + alert option" where
  "check_tvl_change self nm prev cur =
     (if truthy (tvl prev) \<and> truthy (tvl cur) then
        (case percent_change (tvl prev) (tvl cur) of
           Inl e \<Rightarrow> Inl e
         | Inr change_percent \<Rightarrow>
             if num_ge (num_abs change_percent) (tvl_threshold self) then
               make_alert Tvl_metric nm
                 (if num_ge (num_abs change_percent) 20 then HIGH else MEDIUM)
                 change_percent (tvl prev) (tvl cur)
             else Inr None)
      else Inr None)"

definition check_apy_change ::
  "alert_manager \<Rightarrow> string \<Rightarrow> snapshot \<Rightarrow> snapshot \<Rightarrow> py_error + alert option" where
  "check_apy_change self nm prev cur =
     (if truthy (apy prev) \<and> truthy (apy cur) then
        (case point_change (apy prev) (apy cur) of
           Inl e \<Rightarrow> Inl e
         | Inr change \<Rightarrow>
             if num_ge (num_abs change) (apy_threshold self) then
               make_alert Apy_metric nm MEDIUM change (apy prev) (apy cur)
             else Inr None)
      else Inr None)"

text \<open>
  Two conditions on the metric values of a snapshot: each is absent, \<open>None\<close> or a
  number; each is absent, \<open>None\<close> or a float.
\<close>

definition number_or_absent :: "pyval \<Rightarrow> bool" where
  "number_or_absent v = (case v of Other t \<Rightarrow> False | _ \<Rightarrow> True)"


definition numeric_metrics :: "snapshot \<Rightarrow> bool" where
  "numeric_metrics s =
     (number_or_absent (price s) \<and> number_or_absent (tvl s) \<and> number_or_absent (apy s))"


section \<open>\<open>check_alerts\<close>\<close>

text \<open>\<open>if alert: alerts.append(alert)\<close>\<close>

definition append_alert :: "alert list \<Rightarrow> alert option \<Rightarrow> alert list" where
  "append_alert alerts a = (case a of None \<Rightarrow> alerts | Some x \<Rightarrow> alerts @ [x])"

text \<open>
  The first loop of \<open>check_alerts\<close>. An exception leaves the loop with the instance as
  mutated so far; the list of alerts collected up to there is lost.
\<close>

fun check_loop ::
  "alert_manager \<Rightarrow> snapshot list \<Rightarrow> alert list \<Rightarrow> (py_error + alert list) \<times> alert_manager" where
  "check_loop self [] alerts = (Inr alerts, self)"
| "check_loop self (protocol_data # rest) alerts =
     (case name protocol_data of
        None \<Rightarrow> (Inl KeyError, self)
      | Some protocol_name \<Rightarrow>
          (case previous_data self protocol_name of
             None \<Rightarrow>
               check_loop
                 (self\<lparr>previous_data := (previous_data self)(protocol_name \<mapsto> protocol_data)\<rparr>)
                 rest alerts
           | Some prev_data \<Rightarrow>
               (case check_price_change self protocol_name prev_data protocol_data of
                  Inl e \<Rightarrow> (Inl e, self)
                | Inr a1 \<Rightarrow>
               (case check_tvl_change self protocol_name prev_data protocol_data of
                  Inl e \<Rightarrow> (Inl e, self)
                | Inr a2 \<Rightarrow>
               (case check_apy_change self protocol_name prev_data protocol_data of
                  Inl e \<Rightarrow> (Inl e, self)
                | Inr a3 \<Rightarrow>
                    check_loop self rest
                      (append_alert (append_alert (append_alert alerts a1) a2) a3))))))"

text \<open>The second loop: \<open>self.previous_data[protocol_data['name']] = protocol_data\<close>.\<close>

fun update_previous :: "alert_manager \<Rightarrow> snapshot list \<Rightarrow> (py_error + unit) \<times> alert_manager" where
  "update_previous self [] = (Inr (), self)"
| "update_previous self (protocol_data # rest) =
     (case name protocol_data of
        None \<Rightarrow> (Inl KeyError, self)
      | Some protocol_name \<Rightarrow>
          update_previous
            (self\<lparr>previous_data := (previous_data self)(protocol_name \<mapsto> protocol_data)\<rparr>) rest)"

definition check_alerts ::
  "alert_manager \<Rightarrow> snapshot list \<Rightarrow> (py_error + alert list) \<times> alert_manager" where
  "check_alerts self current_data =
     (if \<not> enabled self then (Inr [], self)
      else
        (case check_loop self current_data [] of
           (Inl e, self1) \<Rightarrow> (Inl e, self1)
         | (Inr alerts, self1) \<Rightarrow>
             (case update_previous self1 current_data of
                (Inl e, self2) \<Rightarrow> (Inl e, self2)
              | (Inr u, self2) \<Rightarrow> (Inr alerts, self2))))"

section \<open>\<open>send_alerts\<close> and its three channels\<close>

text \<open>
  The outside world of one \<open>send_alerts\<close> call: what the webhook answers to the
  \<open>k\<close>-th \<open>requests.post\<close> of the call, and whether the SMTP conversation
  (\<open>starttls\<close>, \<open>login\<close>, \<open>send_message\<close>) goes through. A POST either gets a 2xx
  answer, or an answer on which \<open>raise_for_status\<close> raises, or raises by itself
  (timeout, connection error).
\<close>

datatype post_result = Status_ok | Status_error | Post_exception

text \<open>\<open>_send_console_alerts\<close>: prints every alert and returns \<open>True\<close>.\<close>

definition send_console_alerts :: "alert list \<Rightarrow> bool \<times> alert list" where
  "send_console_alerts alerts = (True, alerts)"

text \<open>
  \<open>_send_discord_alerts\<close>: the \<open>for\<close> loop stands inside one \<open>try\<close>, whose handler
  returns \<open>False\<close>. The second component lists the alerts a POST was issued for, in
  order.
\<close>

fun discord_loop :: "(nat \<Rightarrow> post_result) \<Rightarrow> nat \<Rightarrow> alert list \<Rightarrow> bool \<times> alert list" where
  "discord_loop post k [] = (True, [])"
| "discord_loop post k (a # rest) =
     (case post k of
        Status_ok \<Rightarrow> (case discord_loop post (Suc k) rest of (ok, posted) \<Rightarrow> (ok, a # posted))
      | Status_error \<Rightarrow> (False, [a])
      | Post_exception \<Rightarrow> (False, [a]))"

definition send_discord_alerts :: "(nat \<Rightarrow> post_result) \<Rightarrow> alert list \<Rightarrow> bool \<times> alert list" where
  "send_discord_alerts post alerts = discord_loop post 0 alerts"

text \<open>
  \<open>_send_email_alerts\<close>: one message with all alerts; the second component lists the
  messages handed to the transport.
\<close>

definition send_email_alerts :: "alert_manager \<Rightarrow> bool \<Rightarrow> alert list \<Rightarrow> bool \<times> alert list list" where
  "send_email_alerts self smtp_ok alerts =
     (if \<not> (email_to self \<noteq> [] \<and> email_from self \<noteq> [] \<and>
             smtp_username self \<noteq> [] \<and> smtp_password self \<noteq> []) then (False, [])
      else if smtp_ok then (True, [alerts])
      else (False, []))"

record delivery =
  count :: nat
  printed :: "alert list"
  posted :: "alert list"
  mailed :: "alert list list"

definition send_alerts ::
  "alert_manager \<Rightarrow> (nat \<Rightarrow> post_result) \<Rightarrow> bool \<Rightarrow> alert list \<Rightarrow> delivery" where
  "send_alerts self post smtp_ok alerts =
     (if alerts = [] then \<lparr>count = 0, printed = [], posted = [], mailed = []\<rparr>
      else
        let d0 = \<lparr>count = 0, printed = [], posted = [], mailed = []\<rparr>;
            d1 = (if console self then
                    (case send_console_alerts alerts of
                       (ok, out) \<Rightarrow> d0\<lparr>count := count d0 + length alerts, printed := out\<rparr>)
                  else d0);
            d2 = (if discord_webhook self \<and> discord_webhook_url self \<noteq> [] then
                    (case send_discord_alerts post alerts of
                       (ok, out) \<Rightarrow>
                         if ok then d1\<lparr>count := count d1 + length alerts, posted := out\<rparr>
                         else d1\<lparr>posted := out\<rparr>)
                  else d1);
            d3 = (if email self \<and> email_to self \<noteq> [] then
                    (case send_email_alerts self smtp_ok alerts of
                       (ok, out) \<Rightarrow>
                         if ok then d2\<lparr>count := count d2 + length alerts, mailed := out\<rparr>
                         else d2\<lparr>mailed := out\<rparr>)
                  else d2)
        in d3)"

text \<open>
  The words of the specification for the delivered count: a channel contributes when it
  is enabled and delivered the whole batch.
\<close>

definition console_delivers :: "alert_manager \<Rightarrow> bool" where
  "console_delivers self = console self"

definition webhook_enabled :: "alert_manager \<Rightarrow> bool" where
  "webhook_enabled self = (discord_webhook self \<and> discord_webhook_url self \<noteq> [])"

definition webhook_delivers :: "alert_manager \<Rightarrow> (nat \<Rightarrow> post_result) \<Rightarrow> alert list \<Rightarrow> bool" where
  "webhook_delivers self post alerts =
     (webhook_enabled self \<and> (\<forall>k < length alerts. post k = Status_ok))"

definition email_delivers :: "alert_manager \<Rightarrow> bool \<Rightarrow> bool" where
  "email_delivers self smtp_ok =
     (email self \<and> email_to self \<noteq> [] \<and> email_from self \<noteq> [] \<and>
      smtp_username self \<noteq> [] \<and> smtp_password self \<noteq> [] \<and> smtp_ok)"

definition successful_channels ::
  "alert_manager \<Rightarrow> (nat \<Rightarrow> post_result) \<Rightarrow> bool \<Rightarrow> alert list \<Rightarrow> nat" where
  "successful_channels self post smtp_ok alerts =
     (if console_delivers self then 1 else 0) +
     (if webhook_delivers self post alerts then 1 else 0) +
     (if email_delivers self smtp_ok then 1 else 0)"

section \<open>\<open>CoinGeckoAPI._make_request\<close> of \<open>src/coingecko.py\<close>\<close>

text \<open>
  The upstream is the sequence of answers to the successive \<open>session.get\<close> calls: a
  2xx answer with its JSON body, a 429, another status on which \<open>raise_for_status\<close>
  raises, or a \<open>RequestException\<close> raised by the GET itself. After a 429 the function
  sleeps 60 seconds and calls itself, with no counter and no limit of its own; what ends
  an unbroken run of 429 answers is the interpreter's recursion limit. The first argument
  is the number of nested activations of \<open>_make_request\<close> that the interpreter still
  allows (about a thousand by default, less what the callers use); the activation beyond
  it raises \<open>RecursionError\<close>, which the handler for \<open>RequestException\<close> does not
  catch, so that it leaves every enclosing activation.

  The result is what the call returns (the body, or \<open>None\<close> after a failed request) or
  the exception that escapes it, together with the number of GETs issued so far and the
  number of 60 second cooldowns slept.
\<close>

datatype 'a response = Ok_json 'a | Rate_limited | Http_error | Get_exception

fun make_request ::
  "nat \<Rightarrow> (nat \<Rightarrow> 'a response) \<Rightarrow> nat \<Rightarrow> nat \<Rightarrow> (py_error + 'a option) \<times> nat \<times> nat" where
  "make_request 0 upstream k cooldowns = (Inl RecursionError, k, cooldowns)"
| "make_request (Suc depth) upstream k cooldowns =
     (case upstream k of
        Get_exception \<Rightarrow> (Inr None, Suc k, cooldowns)
      | Rate_limited \<Rightarrow> make_request depth upstream (Suc k) (Suc cooldowns)
      | Http_error \<Rightarrow> (Inr None, Suc k, cooldowns)
      | Ok_json body \<Rightarrow> (Inr (Some body), Suc k, cooldowns))"

text \<open>What one answer other than 429 makes the call return.\<close>

definition answer :: "'a response \<Rightarrow> 'a option" where
  "answer r = (case r of Ok_json body \<Rightarrow> Some body | _ \<Rightarrow> None)"

section \<open>Sample data\<close>

text \<open>
  The scenarios of the specification: a protocol observed twice, with the price going
  from 100 to 106, the tvl from 1000000 to 750000 and the apy from 2 to 4.5 (all floats),
  and the three alerts that the default thresholds give for this move.
\<close>

definition aave_before :: snapshot where
  "aave_before = \<lparr>name = Some ''aave'', price = Num (PyFloat (Finite 100)),
      tvl = Num (PyFloat (Finite 1000000)), apy = Num (PyFloat (Finite 2))\<rparr>"

definition aave_after :: snapshot where
  "aave_after = \<lparr>name = Some ''aave'', price = Num (PyFloat (Finite 106)),
      tvl = Num (PyFloat (Finite 750000)), apy = Num (PyFloat (Finite (9 / 2)))\<rparr>"

definition nameless :: snapshot where
  "nameless = \<lparr>name = None, price = Num (PyFloat (Finite 1)), tvl = PyNone, apy = Missing\<rparr>"

definition price_alert :: alert where
  "price_alert = \<lparr>alert_type = Price_metric, protocol = ''aave'', severity = MEDIUM,
      direction = INCREASED, magnitude = PyFloat (Finite 6),
      previous_value = PyFloat (Finite 100), current_value = PyFloat (Finite 106)\<rparr>"

definition tvl_alert :: alert where
  "tvl_alert = \<lparr>alert_type = Tvl_metric, protocol = ''aave'', severity = HIGH,
      direction = DECREASED, magnitude = PyFloat (Finite 25),
      previous_value = PyFloat (Finite 1000000), current_value = PyFloat (Finite 750000)\<rparr>"

definition apy_alert :: alert where
  "apy_alert = \<lparr>alert_type = Apy_metric, protocol = ''aave'', severity = MEDIUM,
      direction = INCREASED, magnitude = PyFloat (Finite (5 / 2)),
      previous_value = PyFloat (Finite 2), current_value = PyFloat (Finite (9 / 2))\<rparr>"

text \<open>
  Snapshots that carry an apy only (2 and 4.5), one whose tvl is a list, as the
  \<open>/protocol\<close> endpoint delivers it, and a second protocol.
\<close>

definition apy_low :: snapshot where
  "apy_low = \<lparr>name = Some ''aave'', price = PyNone, tvl = PyNone, apy = Num (PyFloat (Finite 2))\<rparr>"

definition apy_high :: snapshot where
  "apy_high = \<lparr>name = Some ''aave'', price = PyNone, tvl = PyNone,
      apy = Num (PyFloat (Finite (9 / 2)))\<rparr>"

definition tvl_list :: snapshot where
  "tvl_list = \<lparr>name = Some ''aave'', price = PyNone, tvl = Other True, apy = PyNone\<rparr>"

definition compound :: snapshot where
  "compound = \<lparr>name = Some ''compound'', price = Num (PyFloat (Finite 50)), tvl = PyNone,
      apy = Num (PyInt 3)\<rparr>"

text \<open>The alert that comparing \<open>apy_low\<close> with the baseline \<open>apy_high\<close> gives.\<close>

definition apy_drop_alert :: alert where
  "apy_drop_alert = \<lparr>alert_type = Apy_metric, protocol = ''aave'', severity = MEDIUM,
      direction = DECREASED, magnitude = PyFloat (Finite (5 / 2)),
      previous_value = PyFloat (Finite (9 / 2)), current_value = PyFloat (Finite 2)\<rparr>"

text \<open>
  A move on the boundary: the price from 100 to 105 under the price threshold 5, and the
  tvl from 100 to 129 under a tvl threshold of 29. And a fall of price and tvl to zero.
\<close>

definition boundary_before :: snapshot where
  "boundary_before = \<lparr>name = Some ''aave'', price = Num (PyFloat (Finite 100)),
      tvl = Num (PyFloat (Finite 100)), apy = PyNone\<rparr>"

definition boundary_after :: snapshot where
  "boundary_after = \<lparr>name = Some ''aave'', price = Num (PyFloat (Finite 105)),
      tvl = Num (PyFloat (Finite 129)), apy = PyNone\<rparr>"

definition boundary_manager :: alert_manager where
  "boundary_manager = default_manager\<lparr>tvl_threshold := 29\<rparr>"

definition aave_zero :: snapshot where
  "aave_zero = \<lparr>name = Some ''aave'', price = Num (PyFloat (Finite 0)),
      tvl = Num (PyInt 0), apy = PyNone\<rparr>"

text \<open>
  A price move on the severity cut-off: from the float \<open>6.3\<close> to the float \<open>6.93\<close>,
  for which the code computes a delta of exactly \<open>10.0\<close>, and its alert.
\<close>

definition cutoff_before :: snapshot where
  "cutoff_before = \<lparr>name = Some ''aave'',
      price = Num (PyFloat (Finite (7093169413108531 / 1125899906842624))), tvl = PyNone,
      apy = PyNone\<rparr>"

definition cutoff_after :: snapshot where
  "cutoff_after = \<lparr>name = Some ''aave'',
      price = Num (PyFloat (Finite (975310794302423 / 140737488355328))), tvl = PyNone,
      apy = PyNone\<rparr>"

definition cutoff_alert :: alert where
  "cutoff_alert = \<lparr>alert_type = Price_metric, protocol = ''aave'', severity = HIGH,
      direction = INCREASED, magnitude = PyFloat (Finite 10),
      previous_value = PyFloat (Finite (7093169413108531 / 1125899906842624)),
      current_value = PyFloat (Finite (975310794302423 / 140737488355328))\<rparr>"

text \<open>A price threshold of 3, and the price going from 100 to 107.\<close>

definition low_threshold_manager :: alert_manager where
  "low_threshold_manager = default_manager\<lparr>price_threshold := 3\<rparr>"

definition aave_107 :: snapshot where
  "aave_107 = \<lparr>name = Some ''aave'', price = Num (PyFloat (Finite 107)), tvl = PyNone,
      apy = PyNone\<rparr>"

text \<open>An instance with alerting switched on, otherwise as \<open>default_manager\<close>.\<close>

definition enabled_manager :: alert_manager where
  "enabled_manager = default_manager\<lparr>enabled := True\<rparr>"

text \<open>The same with \<open>aave_before\<close> as the recorded baseline of the protocol.\<close>

definition baseline_manager :: alert_manager where
  "baseline_manager = enabled_manager\<lparr>previous_data := [''aave'' \<mapsto> aave_before]\<rparr>"

text \<open>An instance configured to alert on any apy change: an apy threshold of 0.\<close>

definition zero_threshold_manager :: alert_manager where
  "zero_threshold_manager = enabled_manager\<lparr>apy_threshold := 0\<rparr>"

text \<open>The alert that comparing \<open>apy_low\<close> with itself gives under that threshold.\<close>

definition no_change_alert :: alert where
  "no_change_alert = \<lparr>alert_type = Apy_metric, protocol = ''aave'', severity = MEDIUM,
      direction = DECREASED, magnitude = PyFloat (Finite 0),
      previous_value = PyFloat (Finite 2), current_value = PyFloat (Finite 2)\<rparr>"

text \<open>Instances after a pass: over \<open>aave_after\<close>, \<open>apy_low\<close>, \<open>apy_high\<close>, \<open>tvl_list\<close>.\<close>

definition after_manager :: alert_manager where
  "after_manager = enabled_manager\<lparr>previous_data := [''aave'' \<mapsto> aave_after]\<rparr>"

definition zero_threshold_baseline :: alert_manager where
  "zero_threshold_baseline = zero_threshold_manager\<lparr>previous_data := [''aave'' \<mapsto> apy_low]\<rparr>"

definition apy_high_manager :: alert_manager where
  "apy_high_manager = enabled_manager\<lparr>previous_data := [''aave'' \<mapsto> apy_high]\<rparr>"

definition tvl_list_manager :: alert_manager where
  "tvl_list_manager = enabled_manager\<lparr>previous_data := [''aave'' \<mapsto> tvl_list]\<rparr>"

text \<open>An instance with the console and the webhook channel on, and no email.\<close>

definition webhook_manager :: alert_manager where
  "webhook_manager =
     default_manager\<lparr>discord_webhook := True, discord_webhook_url := ''https://hook''\<rparr>"

text \<open>Webhooks that reject every POST, the first POST only, the second POST only.\<close>

definition always_failing :: "nat \<Rightarrow> post_result" where
  "always_failing k = Status_error"

definition first_fails :: "nat \<Rightarrow> post_result" where
  "first_fails k = (if k = 0 then Status_error else Status_ok)"

definition second_fails :: "nat \<Rightarrow> post_result" where
  "second_fails k = (if k = 1 then Post_exception else Status_ok)"

text \<open>
  Upstreams that answer 429 once, twice and for ever; the first two then deliver a body.
\<close>

definition limited_once :: "nat \<Rightarrow> string response" where
  "limited_once k = (if k < 1 then Rate_limited else Ok_json ''body'')"

definition limited_twice :: "nat \<Rightarrow> string response" where
  "limited_twice k = (if k < 2 then Rate_limited else Ok_json ''body'')"

definition limited_forever :: "nat \<Rightarrow> string response" where
  "limited_forever k = Rate_limited"

section \<open>Properties of the arithmetic\<close>

lemma pow2_pos: "0 < pow2 e"
  by (simp add: pow2_def)

lemma pow2_powr: "pow2 e = 2 powr (of_int e)"
  by (simp add: pow2_def powr_real_of_int field_simps)

lemma expo_eq: "pow2 e \<le> \<bar>x\<bar> \<Longrightarrow> \<bar>x\<bar> < pow2 (e + 1) \<Longrightarrow> expo x = e"
proof -
  assume a: "pow2 e \<le> \<bar>x\<bar>" and b: "\<bar>x\<bar> < pow2 (e + 1)"
  from a pow2_pos [of e] have pos: "0 < \<bar>x\<bar>" by linarith
  have "\<lfloor>log 2 \<bar>x\<bar>\<rfloor> = e"
    using a b pos unfolding pow2_powr
    by (subst floor_log_eq_powr_iff) (simp_all add: add.commute)
  then show ?thesis by (simp add: expo_def)
qed

text \<open>Rounding a real whose binary exponent is known.\<close>

lemma to_double_eval:
  "pow2 e \<le> \<bar>x\<bar> \<Longrightarrow> \<bar>x\<bar> < pow2 (e + 1) \<Longrightarrow>
   to_double x =
     (let e' = max e (- 1022);
          r = of_int (round_half_even (x / pow2 (e' - 52))) * pow2 (e' - 52)
      in if pow2 1024 \<le> \<bar>r\<bar> then (if 0 < x then PosInf else NegInf) else Finite r)"
proof -
  assume a: "pow2 e \<le> \<bar>x\<bar>" and b: "\<bar>x\<bar> < pow2 (e + 1)"
  from a pow2_pos [of e] have "x \<noteq> 0" by auto
  then show ?thesis by (simp add: to_double_def expo_eq [OF a b] Let_def)
qed

lemmas double_eval = pow2_def round_half_even_def Let_def

lemma to_double_0: "to_double 0 = Finite 0"
  by (simp add: to_double_def)

lemma to_double_100: "to_double 100 = Finite 100"
  by (subst to_double_eval [of 6]) (simp_all add: double_eval)

lemma int_to_float_100: "int_to_float 100 = Inr (Finite 100)"
  by (simp add: int_to_float_def to_double_100)

lemma num_sub_float: "num_sub (PyFloat x) (PyFloat y) = Inr (PyFloat (float_sub x y))"
  by (simp add: num_sub_def as_float_def)

lemma num_truediv_float:
  "y \<noteq> Finite 0 \<Longrightarrow> num_truediv (PyFloat x) (PyFloat y) = Inr (PyFloat (float_div x y))"
  by (simp add: num_truediv_def as_float_def)

lemma num_mul_100: "num_mul (PyFloat q) (PyInt 100) = Inr (PyFloat (float_mul q (Finite 100)))"
  by (simp add: num_mul_def as_float_def int_to_float_100)

lemma format_f_float: "format_f (PyFloat x) = Inr ()"
  by (simp add: format_f_def as_float_def)

lemma percent_change_float:
  "x \<noteq> Finite 0 \<Longrightarrow>
   percent_change (Num (PyFloat x)) (Num (PyFloat y))
     = Inr (PyFloat (float_mul (float_div (float_sub y x) x) (Finite 100)))"
  by (simp add: percent_change_def operand_def num_sub_float num_truediv_float num_mul_100)

lemma point_change_float:
  "point_change (Num (PyFloat x)) (Num (PyFloat y)) = Inr (PyFloat (float_sub y x))"
  by (simp add: point_change_def operand_def num_sub_float)

text \<open>The only exceptions of the arithmetic.\<close>

lemma int_to_float_error: "int_to_float n = Inl e \<Longrightarrow> e = OverflowError"
  by (auto simp: int_to_float_def split: pyfloat.splits)

lemma as_float_error: "as_float a = Inl e \<Longrightarrow> e = OverflowError"
  by (auto simp: as_float_def split: pynum.splits dest: int_to_float_error)

lemma format_f_error: "format_f a = Inl e \<Longrightarrow> e = OverflowError"
  by (auto simp: format_f_def split: sum.splits dest: as_float_error)

lemma num_sub_error: "num_sub a b = Inl e \<Longrightarrow> e = OverflowError"
  by (auto simp: num_sub_def split: pynum.splits sum.splits dest: as_float_error)

lemma num_mul_error: "num_mul a b = Inl e \<Longrightarrow> e = OverflowError"
  by (auto simp: num_mul_def split: pynum.splits sum.splits dest: as_float_error)

lemma num_truediv_error:
  "num_truediv a b = Inl e \<Longrightarrow> e = OverflowError \<or> e = ZeroDivisionError"
  by (auto simp: num_truediv_def split: pynum.splits sum.splits pyfloat.splits if_splits
      dest: as_float_error)

lemma operand_error: "truthy v \<Longrightarrow> operand v = Inl e \<Longrightarrow> e = TypeError"
  by (auto simp: truthy_def operand_def split: pyval.splits)

lemma percent_change_error:
  "truthy prev \<Longrightarrow> truthy cur \<Longrightarrow> percent_change prev cur = Inl e \<Longrightarrow> e \<noteq> KeyError"
  by (auto simp: percent_change_def split: sum.splits
      dest: operand_error num_sub_error num_truediv_error num_mul_error)

lemma point_change_error:
  "truthy prev \<Longrightarrow> truthy cur \<Longrightarrow> point_change prev cur = Inl e \<Longrightarrow> e \<noteq> KeyError"
  by (auto simp: point_change_def split: sum.splits dest: operand_error num_sub_error)

lemma make_alert_error:
  "truthy prev \<Longrightarrow> truthy cur \<Longrightarrow> make_alert m nm sev change prev cur = Inl e \<Longrightarrow> e \<noteq> KeyError"
  by (auto simp: make_alert_def split: sum.splits dest: operand_error format_f_error)

section \<open>Properties of the metric checks\<close>

lemma truthy_cases: "truthy v \<longleftrightarrow> v \<notin> {Missing, PyNone, Num (PyInt 0), Num (PyFloat (Finite 0)), Other False}"
  by (auto simp: truthy_def split: pyval.splits pynum.splits)

lemma check_price_change_falsy:
  "\<not> truthy (price prev) \<or> \<not> truthy (price cur) \<Longrightarrow> check_price_change self nm prev cur = Inr None"
  by (auto simp: check_price_change_def)

lemma check_tvl_change_falsy:
  "\<not> truthy (tvl prev) \<or> \<not> truthy (tvl cur) \<Longrightarrow> check_tvl_change self nm prev cur = Inr None"
  by (auto simp: check_tvl_change_def)

lemma check_apy_change_falsy:
  "\<not> truthy (apy prev) \<or> \<not> truthy (apy cur) \<Longrightarrow> check_apy_change self nm prev cur = Inr None"
  by (auto simp: check_apy_change_def)

lemma check_price_change_error: "check_price_change self nm prev cur \<noteq> Inl KeyError"
  by (auto simp: check_price_change_def split: sum.splits if_splits
      dest: percent_change_error make_alert_error)

lemma check_tvl_change_error: "check_tvl_change self nm prev cur \<noteq> Inl KeyError"
  by (auto simp: check_tvl_change_def split: sum.splits if_splits
      dest: percent_change_error make_alert_error)

lemma check_apy_change_error: "check_apy_change self nm prev cur \<noteq> Inl KeyError"
  by (auto simp: check_apy_change_def split: sum.splits if_splits
      dest: point_change_error make_alert_error)

text \<open>The checks on two floats: nothing raises.\<close>

lemma check_price_change_float:
  "price prev = Num (PyFloat x) \<Longrightarrow> price cur = Num (PyFloat y) \<Longrightarrow>
   x \<noteq> Finite 0 \<Longrightarrow> y \<noteq> Finite 0 \<Longrightarrow>
   check_price_change self nm prev cur =
     (let d = float_mul (float_div (float_sub y x) x) (Finite 100) in
      if float_ge (float_abs d) (price_threshold self) then
        Inr (Some \<lparr>alert_type = Price_metric, protocol = nm,
                   severity = (if float_ge (float_abs d) 10 then HIGH else MEDIUM),
                   direction = (if float_pos d then INCREASED else DECREASED),
                   magnitude = PyFloat (float_abs d),
                   previous_value = PyFloat x, current_value = PyFloat y\<rparr>)
      else Inr None)"
  by (simp add: check_price_change_def truthy_def percent_change_float make_alert_def
      operand_def format_f_float num_abs_def num_ge_def direction_of_def num_pos_def Let_def)

lemma check_tvl_change_float:
  "tvl prev = Num (PyFloat x) \<Longrightarrow> tvl cur = Num (PyFloat y) \<Longrightarrow>
   x \<noteq> Finite 0 \<Longrightarrow> y \<noteq> Finite 0 \<Longrightarrow>
   check_tvl_change self nm prev cur =
     (let d = float_mul (float_div (float_sub y x) x) (Finite 100) in
      if float_ge (float_abs d) (tvl_threshold self) then
        Inr (Some \<lparr>alert_type = Tvl_metric, protocol = nm,
                   severity = (if float_ge (float_abs d) 20 then HIGH else MEDIUM),
                   direction = (if float_pos d then INCREASED else DECREASED),
                   magnitude = PyFloat (float_abs d),
                   previous_value = PyFloat x, current_value = PyFloat y\<rparr>)
      else Inr None)"
  by (simp add: check_tvl_change_def truthy_def percent_change_float make_alert_def
      operand_def format_f_float num_abs_def num_ge_def direction_of_def num_pos_def Let_def)

lemma check_apy_change_float:
  "apy prev = Num (PyFloat x) \<Longrightarrow> apy cur = Num (PyFloat y) \<Longrightarrow>
   x \<noteq> Finite 0 \<Longrightarrow> y \<noteq> Finite 0 \<Longrightarrow>
   check_apy_change self nm prev cur =
     (let d = float_sub y x in
      if float_ge (float_abs d) (apy_threshold self) then
        Inr (Some \<lparr>alert_type = Apy_metric, protocol = nm, severity = MEDIUM,
                   direction = (if float_pos d then INCREASED else DECREASED),
                   magnitude = PyFloat (float_abs d),
                   previous_value = PyFloat x, current_value = PyFloat y\<rparr>)
      else Inr None)"
  by (simp add: check_apy_change_def truthy_def point_change_float make_alert_def
      operand_def format_f_float num_abs_def num_ge_def direction_of_def num_pos_def Let_def)





text \<open>
  C7. When the previous price (resp. tvl) is zero or absent (key missing, \<open>None\<close>, the
  int \<open>0\<close>, the float \<open>0.0\<close>, or any other object that counts as false), the price
  (resp. tvl) check returns \<open>None\<close>: it does not raise, in particular not
  \<open>ZeroDivisionError\<close>, and it yields no alert, whatever the current snapshot holds.
\<close>

theorem zero_or_absent_previous_no_alert:
  "(price prev \<in> {Missing, PyNone, Num (PyInt 0), Num (PyFloat (Finite 0)), Other False} \<longrightarrow>
      check_price_change self nm prev cur = Inr None) \<and>
   (tvl prev \<in> {Missing, PyNone, Num (PyInt 0), Num (PyFloat (Finite 0)), Other False} \<longrightarrow>
      check_tvl_change self nm prev cur = Inr None)"
  using check_price_change_falsy [of prev cur self nm] check_tvl_change_falsy [of prev cur self nm]
    truthy_cases [of "price prev"] truthy_cases [of "tvl prev"]
  by blast

text \<open>
  C7 at a previous snapshot with price \<open>0.0\<close> and tvl \<open>None\<close>.
\<close>

theorem zero_or_absent_previous_no_alert_witness:
  "price (aave_before\<lparr>price := Num (PyFloat (Finite 0)), tvl := PyNone\<rparr>)
     \<in> {Missing, PyNone, Num (PyInt 0), Num (PyFloat (Finite 0)), Other False} \<and>
   tvl (aave_before\<lparr>price := Num (PyFloat (Finite 0)), tvl := PyNone\<rparr>)
     \<in> {Missing, PyNone, Num (PyInt 0), Num (PyFloat (Finite 0)), Other False} \<and>
   check_price_change default_manager ''aave''
     (aave_before\<lparr>price := Num (PyFloat (Finite 0)), tvl := PyNone\<rparr>) aave_after = Inr None \<and>
   check_tvl_change default_manager ''aave''
     (aave_before\<lparr>price := Num (PyFloat (Finite 0)), tvl := PyNone\<rparr>) aave_after = Inr None"
  using zero_or_absent_previous_no_alert
    [of "aave_before\<lparr>price := Num (PyFloat (Finite 0)), tvl := PyNone\<rparr>" default_manager
        "''aave''" aave_after]
  by simp

text \<open>The arithmetic of the sample data, operation by operation.\<close>

lemma delta_100_106:
  "float_mul (float_div (float_sub (Finite 106) (Finite 100)) (Finite 100)) (Finite 100) = Finite 6"
proof -
  have a: "to_double 6 = Finite 6"
    by (subst to_double_eval [of 2]) (simp_all add: double_eval)
  have b: "to_double (6 / 100) = Finite (1080863910568919 / 2 ^ 54)"
    by (subst to_double_eval [of "- 5"]) (simp_all add: double_eval)
  have c: "to_double (1080863910568919 / 2 ^ 54 * 100) = Finite 6"
    by (subst to_double_eval [of 2]) (simp_all add: double_eval)
  have "float_sub (Finite 106) (Finite 100) = Finite 6" using a by simp
  moreover have "float_div (Finite 6) (Finite 100) = Finite (1080863910568919 / 2 ^ 54)"
    using b by simp
  moreover have "float_mul (Finite (1080863910568919 / 2 ^ 54)) (Finite 100) = Finite 6"
    using c by simp
  ultimately show ?thesis by (simp only:)
qed

lemma delta_100_105:
  "float_mul (float_div (float_sub (Finite 105) (Finite 100)) (Finite 100)) (Finite 100) = Finite 5"
proof -
  have a: "to_double 5 = Finite 5"
    by (subst to_double_eval [of 2]) (simp_all add: double_eval)
  have b: "to_double (5 / 100) = Finite (3602879701896397 / 2 ^ 56)"
    by (subst to_double_eval [of "- 5"]) (simp_all add: double_eval)
  have c: "to_double (3602879701896397 / 2 ^ 56 * 100) = Finite 5"
    by (subst to_double_eval [of 2]) (simp_all add: double_eval)
  have "float_sub (Finite 105) (Finite 100) = Finite 5" using a by simp
  moreover have "float_div (Finite 5) (Finite 100) = Finite (3602879701896397 / 2 ^ 56)"
    using b by simp
  moreover have "float_mul (Finite (3602879701896397 / 2 ^ 56)) (Finite 100) = Finite 5"
    using c by simp
  ultimately show ?thesis by (simp only:)
qed

lemma delta_100_107:
  "float_mul (float_div (float_sub (Finite 107) (Finite 100)) (Finite 100)) (Finite 100)
     = Finite (7881299347898369 / 2 ^ 50)"
proof -
  have a: "to_double 7 = Finite 7"
    by (subst to_double_eval [of 2]) (simp_all add: double_eval)
  have b: "to_double (7 / 100) = Finite (1261007895663739 / 2 ^ 54)"
    by (subst to_double_eval [of "- 4"]) (simp_all add: double_eval)
  have c: "to_double (1261007895663739 / 2 ^ 54 * 100) = Finite (7881299347898369 / 2 ^ 50)"
    by (subst to_double_eval [of 2]) (simp_all add: double_eval)
  have "float_sub (Finite 107) (Finite 100) = Finite 7" using a by simp
  moreover have "float_div (Finite 7) (Finite 100) = Finite (1261007895663739 / 2 ^ 54)"
    using b by simp
  moreover have "float_mul (Finite (1261007895663739 / 2 ^ 54)) (Finite 100)
      = Finite (7881299347898369 / 2 ^ 50)"
    using c by simp
  ultimately show ?thesis by (simp only:)
qed

lemma delta_100_129:
  "float_mul (float_div (float_sub (Finite 129) (Finite 100)) (Finite 100)) (Finite 100)
     = Finite (8162774324609023 / 2 ^ 48)"
proof -
  have a: "to_double 29 = Finite 29"
    by (subst to_double_eval [of 4]) (simp_all add: double_eval)
  have b: "to_double (29 / 100) = Finite (5224175567749775 / 2 ^ 54)"
    by (subst to_double_eval [of "- 2"]) (simp_all add: double_eval)
  have c: "to_double (5224175567749775 / 2 ^ 54 * 100) = Finite (8162774324609023 / 2 ^ 48)"
    by (subst to_double_eval [of 4]) (simp_all add: double_eval)
  have "float_sub (Finite 129) (Finite 100) = Finite 29" using a by simp
  moreover have "float_div (Finite 29) (Finite 100) = Finite (5224175567749775 / 2 ^ 54)"
    using b by simp
  moreover have "float_mul (Finite (5224175567749775 / 2 ^ 54)) (Finite 100)
      = Finite (8162774324609023 / 2 ^ 48)"
    using c by simp
  ultimately show ?thesis by (simp only:)
qed

lemma delta_tvl_sample:
  "float_mul (float_div (float_sub (Finite 750000) (Finite 1000000)) (Finite 1000000)) (Finite 100)
     = Finite (- 25)"
proof -
  have a: "to_double (- 250000) = Finite (- 250000)"
    by (subst to_double_eval [of 17]) (simp_all add: double_eval)
  have b: "to_double (- 250000 / 1000000) = Finite (- 1 / 4)"
    by (subst to_double_eval [of "- 2"]) (simp_all add: double_eval)
  have c: "to_double (- 1 / 4 * 100) = Finite (- 25)"
    by (subst to_double_eval [of 4]) (simp_all add: double_eval)
  have "float_sub (Finite 750000) (Finite 1000000) = Finite (- 250000)" using a by simp
  moreover have "float_div (Finite (- 250000)) (Finite 1000000) = Finite (- 1 / 4)"
    using b by simp
  moreover have "float_mul (Finite (- 1 / 4)) (Finite 100) = Finite (- 25)"
    using c by simp
  ultimately show ?thesis by (simp only:)
qed

lemma delta_to_zero:
  "float_mul (float_div (float_sub (Finite 0) (Finite 100)) (Finite 100)) (Finite 100)
     = Finite (- 100)"
proof -
  have a: "to_double (- 100) = Finite (- 100)"
    by (subst to_double_eval [of 6]) (simp_all add: double_eval)
  have b: "to_double (- 100 / 100) = Finite (- 1)"
    by (subst to_double_eval [of 0]) (simp_all add: double_eval)
  have c: "to_double (- 1 * 100) = Finite (- 100)"
    by (subst to_double_eval [of 6]) (simp_all add: double_eval)
  have "float_sub (Finite 0) (Finite 100) = Finite (- 100)" using a by simp
  moreover have "float_div (Finite (- 100)) (Finite 100) = Finite (- 1)"
    using b by simp
  moreover have "float_mul (Finite (- 1)) (Finite 100) = Finite (- 100)"
    using c by simp
  ultimately show ?thesis by (simp only:)
qed

lemma delta_cutoff:
  "float_mul
     (float_div
        (float_sub (Finite (975310794302423 / 140737488355328))
           (Finite (7093169413108531 / 1125899906842624)))
        (Finite (7093169413108531 / 1125899906842624)))
     (Finite 100) = Finite 10"
proof -
  have a: "to_double (975310794302423 / 140737488355328 - 7093169413108531 / 1125899906842624)
      = Finite (709316941310853 / 1125899906842624)"
    by (subst to_double_eval [of "- 1"]) (simp_all add: double_eval)
  have b: "to_double (709316941310853 / 1125899906842624 / (7093169413108531 / 1125899906842624))
      = Finite (7205759403792793 / 72057594037927936)"
    by (subst to_double_eval [of "- 4"]) (simp_all add: double_eval)
  have c: "to_double (7205759403792793 / 72057594037927936 * 100) = Finite 10"
    by (subst to_double_eval [of 3]) (simp_all add: double_eval)
  have "float_sub (Finite (975310794302423 / 140737488355328))
           (Finite (7093169413108531 / 1125899906842624))
      = Finite (709316941310853 / 1125899906842624)"
    using a by simp
  moreover have "float_div (Finite (709316941310853 / 1125899906842624))
        (Finite (7093169413108531 / 1125899906842624))
      = Finite (7205759403792793 / 72057594037927936)"
    using b by simp
  moreover have "float_mul (Finite (7205759403792793 / 72057594037927936)) (Finite 100)
      = Finite 10"
    using c by simp
  ultimately show ?thesis by (simp only:)
qed

lemma delta_apy_sample: "float_sub (Finite (9 / 2)) (Finite 2) = Finite (5 / 2)"
proof -
  have "to_double (5 / 2) = Finite (5 / 2)"
    by (subst to_double_eval [of 1]) (simp_all add: double_eval)
  then show ?thesis by simp
qed

lemma delta_apy_drop: "float_sub (Finite 2) (Finite (9 / 2)) = Finite (- 5 / 2)"
proof -
  have "to_double (- 5 / 2) = Finite (- 5 / 2)"
    by (subst to_double_eval [of 1]) (simp_all add: double_eval)
  then show ?thesis by simp
qed

lemma delta_apy_same: "float_sub (Finite 2) (Finite 2) = Finite 0"
  by (simp add: to_double_0)

lemma make_alert_not_None: "make_alert m nm sev change prev cur \<noteq> Inr None"
  by (auto simp: make_alert_def split: sum.splits)

lemma make_alert_Some:
  "make_alert m nm sev change prev cur = Inr (Some a) \<Longrightarrow>
   alert_type a = m \<and> protocol a = nm \<and> severity a = sev \<and> magnitude a = num_abs change"
  by (auto simp: make_alert_def split: sum.splits)

lemmas float_ops = float_sub.simps float_div.simps float_mul.simps

lemmas sample_arith = delta_100_106 delta_tvl_sample delta_apy_sample

text \<open>
  C5, as amended. When the previous and the current price (resp. tvl) are both numbers
  other than zero, the check computes the percent delta
  \<open>((current - previous) / previous) * 100\<close> in Python arithmetic, each operation
  rounded to binary64, and passes without an alert if and only if the absolute value of
  the computed delta is below the configured threshold; otherwise it builds the alert. On
  two floats nothing raises, and the alert is emitted if and only if the absolute computed
  delta is at least the threshold: the boundary is inclusive. A current value that is zero
  or absent suppresses the check.
\<close>

theorem threshold_boundary_inclusive:
  "(truthy (price prev) \<and> truthy (price cur) \<and>
    percent_change (price prev) (price cur) = Inr d \<longrightarrow>
      (check_price_change self nm prev cur = Inr None \<longleftrightarrow>
       \<not> num_ge (num_abs d) (price_threshold self))) \<and>
   (price prev = Num (PyFloat x) \<and> price cur = Num (PyFloat y) \<and>
    x \<noteq> Finite 0 \<and> y \<noteq> Finite 0 \<longrightarrow>
      ((\<exists>a. check_price_change self nm prev cur = Inr (Some a)) \<longleftrightarrow>
       float_ge (float_abs (float_mul (float_div (float_sub y x) x) (Finite 100)))
         (price_threshold self))) \<and>
   (truthy (tvl prev) \<and> truthy (tvl cur) \<and>
    percent_change (tvl prev) (tvl cur) = Inr d \<longrightarrow>
      (check_tvl_change self nm prev cur = Inr None \<longleftrightarrow>
       \<not> num_ge (num_abs d) (tvl_threshold self))) \<and>
   (tvl prev = Num (PyFloat x) \<and> tvl cur = Num (PyFloat y) \<and>
    x \<noteq> Finite 0 \<and> y \<noteq> Finite 0 \<longrightarrow>
      ((\<exists>a. check_tvl_change self nm prev cur = Inr (Some a)) \<longleftrightarrow>
       float_ge (float_abs (float_mul (float_div (float_sub y x) x) (Finite 100)))
         (tvl_threshold self))) \<and>
   (\<not> truthy (price cur) \<longrightarrow> check_price_change self nm prev cur = Inr None) \<and>
   (\<not> truthy (tvl cur) \<longrightarrow> check_tvl_change self nm prev cur = Inr None)"
proof (intro conjI impI)
  assume "truthy (price prev) \<and> truthy (price cur) \<and>
    percent_change (price prev) (price cur) = Inr d"
  then show "check_price_change self nm prev cur = Inr None \<longleftrightarrow>
       \<not> num_ge (num_abs d) (price_threshold self)"
    by (simp add: check_price_change_def make_alert_not_None)
next
  assume "price prev = Num (PyFloat x) \<and> price cur = Num (PyFloat y) \<and>
    x \<noteq> Finite 0 \<and> y \<noteq> Finite 0"
  then show "(\<exists>a. check_price_change self nm prev cur = Inr (Some a)) \<longleftrightarrow>
       float_ge (float_abs (float_mul (float_div (float_sub y x) x) (Finite 100)))
         (price_threshold self)"
    by (simp add: check_price_change_float Let_def)
next
  assume "truthy (tvl prev) \<and> truthy (tvl cur) \<and>
    percent_change (tvl prev) (tvl cur) = Inr d"
  then show "check_tvl_change self nm prev cur = Inr None \<longleftrightarrow>
       \<not> num_ge (num_abs d) (tvl_threshold self)"
    by (simp add: check_tvl_change_def make_alert_not_None)
next
  assume "tvl prev = Num (PyFloat x) \<and> tvl cur = Num (PyFloat y) \<and>
    x \<noteq> Finite 0 \<and> y \<noteq> Finite 0"
  then show "(\<exists>a. check_tvl_change self nm prev cur = Inr (Some a)) \<longleftrightarrow>
       float_ge (float_abs (float_mul (float_div (float_sub y x) x) (Finite 100)))
         (tvl_threshold self)"
    by (simp add: check_tvl_change_float Let_def)
next
  assume "\<not> truthy (price cur)"
  then show "check_price_change self nm prev cur = Inr None"
    by (simp add: check_price_change_falsy)
next
  assume "\<not> truthy (tvl cur)"
  then show "check_tvl_change self nm prev cur = Inr None"
    by (simp add: check_tvl_change_falsy)
qed

text \<open>
  C5 on the boundary. From 100 to 105 the computed delta is exactly the price threshold 5
  and the price alert fires. From 100 to 129 the computed delta is
  \<open>28.999999999999996\<close>, below a tvl threshold of 29, and no tvl alert fires. A
  current price of \<open>0.0\<close> gives no alert.
\<close>

theorem threshold_boundary_inclusive_witness:
  "truthy (price boundary_before) \<and> truthy (price boundary_after) \<and>
   percent_change (price boundary_before) (price boundary_after) = Inr (PyFloat (Finite 5)) \<and>
   num_ge (num_abs (PyFloat (Finite 5))) (price_threshold boundary_manager) \<and>
   (\<exists>a. check_price_change boundary_manager ''aave'' boundary_before boundary_after
      = Inr (Some a)) \<and>
   percent_change (tvl boundary_before) (tvl boundary_after)
     = Inr (PyFloat (Finite (8162774324609023 / 2 ^ 48))) \<and>
   \<not> num_ge (num_abs (PyFloat (Finite (8162774324609023 / 2 ^ 48))))
       (tvl_threshold boundary_manager) \<and>
   check_tvl_change boundary_manager ''aave'' boundary_before boundary_after = Inr None \<and>
   \<not> truthy (price aave_zero) \<and>
   check_price_change boundary_manager ''aave'' boundary_before aave_zero = Inr None"
  using threshold_boundary_inclusive
    [of boundary_before boundary_after "PyFloat (Finite 5)" boundary_manager "''aave''"
        "Finite 100" "Finite 105"]
    threshold_boundary_inclusive
    [of boundary_before boundary_after "PyFloat (Finite (8162774324609023 / 2 ^ 48))"
        boundary_manager "''aave''" "Finite 100" "Finite 129"]
    threshold_boundary_inclusive
    [of boundary_before aave_zero "PyFloat (Finite 5)" boundary_manager "''aave''"
        "Finite 100" "Finite 0"]
  by (simp add: boundary_before_def boundary_after_def boundary_manager_def default_manager_def
      aave_zero_def check_price_change_falsy
      truthy_def percent_change_float delta_100_105 delta_100_129 num_ge_def num_abs_def
      del: float_ops)

text \<open>
  C5 as first stated fails where the current value is zero: the guard
  \<open>prev.get(k) and curr.get(k)\<close> is false there, so a fall of the price from 100 to
  \<open>0.0\<close> and of the tvl from 1000000 to \<open>0\<close>, with both values present and the previous
  one nonzero, gives no alert, though the delta \<open>((0.0 - 100.0) / 100.0) * 100\<close> is
  \<open>-100.0\<close>.
\<close>

theorem current_zero_suppresses_alert:
  "float_mul (float_div (float_sub (Finite 0) (Finite 100)) (Finite 100)) (Finite 100)
     = Finite (- 100) \<and>
   float_ge (float_abs (Finite (- 100))) (price_threshold default_manager) \<and>
   check_price_change default_manager ''aave'' aave_before aave_zero = Inr None \<and>
   check_tvl_change default_manager ''aave'' aave_before aave_zero = Inr None"
  by (simp add: delta_to_zero default_manager_def aave_before_def aave_zero_def
      check_price_change_def check_tvl_change_def truthy_def del: float_ops)

text \<open>
  C2, as amended. The severity of a price alert is \<open>HIGH\<close> exactly when the absolute
  value of the percent delta that the check computed (in binary64 arithmetic) is at least
  10, that of a tvl alert exactly when it is at least 20, and \<open>MEDIUM\<close> otherwise; the two
  cut-offs are constants of the code and equal twice the threshold when the thresholds are
  5 and 10, their defaults. An apy alert is always \<open>MEDIUM\<close>.
\<close>

theorem severity_fixed_cutoffs:
  "(check_price_change self nm prev cur = Inr (Some a) \<longrightarrow>
      (\<exists>d. percent_change (price prev) (price cur) = Inr d \<and> magnitude a = num_abs d \<and>
         severity a = (if num_ge (magnitude a) 10 then HIGH else MEDIUM) \<and>
         (price_threshold self = 5 \<longrightarrow>
            severity a = (if num_ge (magnitude a) (2 * price_threshold self) then HIGH
                          else MEDIUM)))) \<and>
   (check_tvl_change self nm prev cur = Inr (Some a) \<longrightarrow>
      (\<exists>d. percent_change (tvl prev) (tvl cur) = Inr d \<and> magnitude a = num_abs d \<and>
         severity a = (if num_ge (magnitude a) 20 then HIGH else MEDIUM) \<and>
         (tvl_threshold self = 10 \<longrightarrow>
            severity a = (if num_ge (magnitude a) (2 * tvl_threshold self) then HIGH
                          else MEDIUM)))) \<and>
   (check_apy_change self nm prev cur = Inr (Some a) \<longrightarrow> severity a = MEDIUM)"
proof (intro conjI impI)
  assume h: "check_price_change self nm prev cur = Inr (Some a)"
  then obtain d where d: "percent_change (price prev) (price cur) = Inr d"
    and m: "make_alert Price_metric nm (if num_ge (num_abs d) 10 then HIGH else MEDIUM)
              d (price prev) (price cur) = Inr (Some a)"
    by (auto simp: check_price_change_def split: if_splits sum.splits)
  from make_alert_Some [OF m]
  have "magnitude a = num_abs d" "severity a = (if num_ge (num_abs d) 10 then HIGH else MEDIUM)"
    by simp_all
  with d show "\<exists>d. percent_change (price prev) (price cur) = Inr d \<and> magnitude a = num_abs d \<and>
         severity a = (if num_ge (magnitude a) 10 then HIGH else MEDIUM) \<and>
         (price_threshold self = 5 \<longrightarrow>
            severity a = (if num_ge (magnitude a) (2 * price_threshold self) then HIGH
                          else MEDIUM))"
    by simp
next
  assume h: "check_tvl_change self nm prev cur = Inr (Some a)"
  then obtain d where d: "percent_change (tvl prev) (tvl cur) = Inr d"
    and m: "make_alert Tvl_metric nm (if num_ge (num_abs d) 20 then HIGH else MEDIUM)
              d (tvl prev) (tvl cur) = Inr (Some a)"
    by (auto simp: check_tvl_change_def split: if_splits sum.splits)
  from make_alert_Some [OF m]
  have "magnitude a = num_abs d" "severity a = (if num_ge (num_abs d) 20 then HIGH else MEDIUM)"
    by simp_all
  with d show "\<exists>d. percent_change (tvl prev) (tvl cur) = Inr d \<and> magnitude a = num_abs d \<and>
         severity a = (if num_ge (magnitude a) 20 then HIGH else MEDIUM) \<and>
         (tvl_threshold self = 10 \<longrightarrow>
            severity a = (if num_ge (magnitude a) (2 * tvl_threshold self) then HIGH
                          else MEDIUM))"
    by simp
next
  assume h: "check_apy_change self nm prev cur = Inr (Some a)"
  then obtain d where "make_alert Apy_metric nm MEDIUM d (apy prev) (apy cur) = Inr (Some a)"
    by (auto simp: check_apy_change_def split: if_splits sum.splits)
  from make_alert_Some [OF this] show "severity a = MEDIUM" by simp
qed

text \<open>
  C2 on the scenarios of the specification: a price move from 100 to 106 is \<open>MEDIUM\<close>,
  a tvl move from 1000000 to 750000 is \<open>HIGH\<close>, an apy move from 2 to 4.5 is
  \<open>MEDIUM\<close>. And on the cut-off: the price move from 6.3 to 6.93 has the computed delta
  \<open>10.0\<close> and is \<open>HIGH\<close>.
\<close>

theorem severity_fixed_cutoffs_witness:
  "check_price_change default_manager ''aave'' aave_before aave_after = Inr (Some price_alert) \<and>
   severity price_alert = MEDIUM \<and>
   check_tvl_change default_manager ''aave'' aave_before aave_after = Inr (Some tvl_alert) \<and>
   severity tvl_alert = HIGH \<and>
   check_apy_change default_manager ''aave'' aave_before aave_after = Inr (Some apy_alert) \<and>
   severity apy_alert = MEDIUM \<and>
   check_price_change default_manager ''aave'' cutoff_before cutoff_after
     = Inr (Some cutoff_alert) \<and>
   magnitude cutoff_alert = PyFloat (Finite 10) \<and> severity cutoff_alert = HIGH"
  using severity_fixed_cutoffs [of default_manager "''aave''" aave_before aave_after price_alert]
    severity_fixed_cutoffs [of default_manager "''aave''" aave_before aave_after tvl_alert]
    severity_fixed_cutoffs [of default_manager "''aave''" aave_before aave_after apy_alert]
    severity_fixed_cutoffs [of default_manager "''aave''" cutoff_before cutoff_after cutoff_alert]
  by (simp add: default_manager_def aave_before_def aave_after_def price_alert_def
      tvl_alert_def apy_alert_def cutoff_before_def cutoff_after_def cutoff_alert_def
      check_price_change_float check_tvl_change_float check_apy_change_float sample_arith
      delta_cutoff Let_def del: float_ops)

text \<open>
  C2 as first stated fails for a threshold other than the default: with a price threshold
  of 3, the move from 100 to 107 has the computed delta \<open>7.000000000000001\<close>, more than
  twice the threshold, and the alert is \<open>MEDIUM\<close>.
\<close>

theorem severity_escalation_counterexample:
  "check_price_change low_threshold_manager ''aave'' aave_before aave_107
   = Inr (Some \<lparr>alert_type = Price_metric, protocol = ''aave'', severity = MEDIUM,
                 direction = INCREASED, magnitude = PyFloat (Finite (7881299347898369 / 2 ^ 50)),
                 previous_value = PyFloat (Finite 100), current_value = PyFloat (Finite 107)\<rparr>) \<and>
   num_ge (PyFloat (Finite (7881299347898369 / 2 ^ 50)))
     (2 * price_threshold low_threshold_manager)"
  by (simp add: low_threshold_manager_def default_manager_def aave_before_def aave_107_def
      check_price_change_float delta_100_107 num_ge_def Let_def del: float_ops)

section \<open>Properties of the two loops of \<open>check_alerts\<close>\<close>

lemma check_price_change_protocol:
  "check_price_change self nm prev cur = Inr (Some a) \<Longrightarrow> protocol a = nm"
  by (auto simp: check_price_change_def split: if_splits sum.splits dest: make_alert_Some)

lemma check_tvl_change_protocol:
  "check_tvl_change self nm prev cur = Inr (Some a) \<Longrightarrow> protocol a = nm"
  by (auto simp: check_tvl_change_def split: if_splits sum.splits dest: make_alert_Some)

lemma check_apy_change_protocol:
  "check_apy_change self nm prev cur = Inr (Some a) \<Longrightarrow> protocol a = nm"
  by (auto simp: check_apy_change_def split: if_splits sum.splits dest: make_alert_Some)

lemma set_append_alert:
  "set (append_alert alerts a) = set alerts \<union> (case a of None \<Rightarrow> {} | Some x \<Rightarrow> {x})"
  by (cases a) (simp_all add: append_alert_def)

lemma check_loop_nameless:
  "name d = None \<Longrightarrow> check_loop self (d # ds) acc = (Inl KeyError, self)"
  by simp

lemma check_loop_new:
  "name d = Some n \<Longrightarrow> previous_data self n = None \<Longrightarrow>
   check_loop self (d # ds) acc =
     check_loop (self\<lparr>previous_data := (previous_data self)(n \<mapsto> d)\<rparr>) ds acc"
  by simp

text \<open>
  An entry with a baseline: either one of the three checks raises, which ends the loop
  with the instance as it is, or the loop goes on with the alerts of the entry appended.
\<close>

lemma check_loop_known:
  assumes "name d = Some n" and "previous_data self n = Some prev"
  shows "(\<exists>e. e \<noteq> KeyError \<and> check_loop self (d # ds) acc = (Inl e, self)) \<or>
     (\<exists>a1 a2 a3.
        check_price_change self n prev d = Inr a1 \<and>
        check_tvl_change self n prev d = Inr a2 \<and>
        check_apy_change self n prev d = Inr a3 \<and>
        check_loop self (d # ds) acc =
          check_loop self ds (append_alert (append_alert (append_alert acc a1) a2) a3))"
proof (cases "check_price_change self n prev d")
  case (Inl e)
  with assms check_price_change_error [of self n prev d] show ?thesis by auto
next
  case a1: (Inr a1)
  show ?thesis
  proof (cases "check_tvl_change self n prev d")
    case (Inl e)
    with assms a1 check_tvl_change_error [of self n prev d] show ?thesis by auto
  next
    case a2: (Inr a2)
    show ?thesis
    proof (cases "check_apy_change self n prev d")
      case (Inl e)
      with assms a1 a2 check_apy_change_error [of self n prev d] show ?thesis by auto
    next
      case (Inr a3)
      with assms a1 a2 show ?thesis by auto
    qed
  qed
qed

lemma check_loop_fields:
  "check_loop self ds acc = (r, self') \<Longrightarrow> self' = self\<lparr>previous_data := previous_data self'\<rparr>"
proof (induction ds arbitrary: self acc)
  case Nil
  then show ?case by auto
next
  case (Cons d ds)
  show ?case
  proof (cases "name d")
    case None
    with Cons.prems show ?thesis by auto
  next
    case (Some n)
    show ?thesis
    proof (cases "previous_data self n")
      case None
      with Some Cons.prems
      have "check_loop (self\<lparr>previous_data := (previous_data self)(n \<mapsto> d)\<rparr>) ds acc = (r, self')"
        by simp
      from Cons.IH [OF this] show ?thesis by simp
    next
      case (Some prev)
      from check_loop_known [OF \<open>name d = Some n\<close> Some, of ds acc] Cons.prems
      consider "self' = self" | acc' where "check_loop self ds acc' = (r, self')" by auto
      then show ?thesis
      proof cases
        case 1
        then show ?thesis by simp
      next
        case 2
        from Cons.IH [OF this] show ?thesis .
      qed
    qed
  qed
qed

lemma check_loop_keeps:
  "check_loop self ds acc = (r, self') \<Longrightarrow> previous_data self n = Some p \<Longrightarrow>
   previous_data self' n = Some p"
proof (induction ds arbitrary: self acc)
  case Nil
  then show ?case by auto
next
  case (Cons d ds)
  show ?case
  proof (cases "name d")
    case None
    with Cons.prems show ?thesis by auto
  next
    case (Some m)
    show ?thesis
    proof (cases "previous_data self m")
      case None
      with Some Cons.prems(1)
      have run: "check_loop (self\<lparr>previous_data := (previous_data self)(m \<mapsto> d)\<rparr>) ds acc = (r, self')"
        by simp
      from None Cons.prems(2) have "n \<noteq> m" by auto
      with Cons.prems(2)
      have "previous_data (self\<lparr>previous_data := (previous_data self)(m \<mapsto> d)\<rparr>) n = Some p"
        by simp
      with run show ?thesis by (rule Cons.IH)
    next
      case (Some prev)
      from check_loop_known [OF \<open>name d = Some m\<close> Some, of ds acc] Cons.prems(1)
      consider "self' = self" | acc' where "check_loop self ds acc' = (r, self')" by auto
      then show ?thesis
      proof cases
        case 1
        with Cons.prems(2) show ?thesis by simp
      next
        case 2
        then show ?thesis using Cons.prems(2) by (rule Cons.IH)
      qed
    qed
  qed
qed

text \<open>A loop that ends normally has met a name in every entry.\<close>

lemma check_loop_returns_named:
  "check_loop self ds acc = (Inr alerts, self') \<Longrightarrow> \<forall>d \<in> set ds. name d \<noteq> None"
proof (induction ds arbitrary: self acc)
  case Nil
  then show ?case by simp
next
  case (Cons d ds)
  show ?case
  proof (cases "name d")
    case None
    with Cons.prems show ?thesis by simp
  next
    case (Some n)
    show ?thesis
    proof (cases "previous_data self n")
      case None
      with Some Cons.prems
      have "check_loop (self\<lparr>previous_data := (previous_data self)(n \<mapsto> d)\<rparr>) ds acc
          = (Inr alerts, self')"
        by simp
      from Cons.IH [OF this] \<open>name d = Some n\<close> show ?thesis by simp
    next
      case (Some prev)
      from check_loop_known [OF \<open>name d = Some n\<close> Some, of ds acc] Cons.prems
      obtain acc' where "check_loop self ds acc' = (Inr alerts, self')" by auto
      from Cons.IH [OF this] \<open>name d = Some n\<close> show ?thesis by simp
    qed
  qed
qed



text \<open>The alerts of a loop over distinct names are about protocols that had a baseline.\<close>

lemma check_loop_protocols:
  "distinct (map name ds) \<Longrightarrow> check_loop self ds acc = (Inr alerts, self') \<Longrightarrow> a \<in> set alerts \<Longrightarrow>
   a \<in> set acc \<or> (previous_data self (protocol a) \<noteq> None \<and> Some (protocol a) \<in> name ` set ds)"
proof (induction ds arbitrary: self acc)
  case Nil
  then show ?case by auto
next
  case (Cons d ds)
  from Cons.prems(1) have dist: "distinct (map name ds)" and fresh: "name d \<notin> name ` set ds"
    by auto
  show ?case
  proof (cases "name d")
    case None
    with Cons.prems(2) show ?thesis by simp
  next
    case (Some n)
    show ?thesis
    proof (cases "previous_data self n")
      case None
      with Some Cons.prems(2)
      have run: "check_loop (self\<lparr>previous_data := (previous_data self)(n \<mapsto> d)\<rparr>) ds acc
          = (Inr alerts, self')"
        by simp
      from Cons.IH [OF dist run Cons.prems(3)]
      show ?thesis
      proof
        assume "a \<in> set acc"
        then show ?thesis by simp
      next
        assume h: "previous_data (self\<lparr>previous_data := (previous_data self)(n \<mapsto> d)\<rparr>) (protocol a)
            \<noteq> None \<and> Some (protocol a) \<in> name ` set ds"
        with fresh Some have "protocol a \<noteq> n" by auto
        with h show ?thesis by auto
      qed
    next
      case (Some prev)
      from check_loop_known [OF \<open>name d = Some n\<close> Some, of ds acc] Cons.prems(2)
      obtain a1 a2 a3 where
        a1: "check_price_change self n prev d = Inr a1" and
        a2: "check_tvl_change self n prev d = Inr a2" and
        a3: "check_apy_change self n prev d = Inr a3" and
        step: "check_loop self (d # ds) acc =
          check_loop self ds (append_alert (append_alert (append_alert acc a1) a2) a3)"
        by auto
      from step Cons.prems(2)
      have run: "check_loop self ds (append_alert (append_alert (append_alert acc a1) a2) a3)
          = (Inr alerts, self')"
        by simp
      from Cons.IH [OF dist run Cons.prems(3)]
      show ?thesis
      proof
        assume "a \<in> set (append_alert (append_alert (append_alert acc a1) a2) a3)"
        then have "a \<in> set acc \<or> a1 = Some a \<or> a2 = Some a \<or> a3 = Some a"
          by (auto simp: set_append_alert split: option.splits)
        then have "a \<in> set acc \<or> protocol a = n"
          using a1 a2 a3 check_price_change_protocol check_tvl_change_protocol
            check_apy_change_protocol by blast
        with Some \<open>name d = Some n\<close> show ?thesis by force
      next
        assume "previous_data self (protocol a) \<noteq> None \<and> Some (protocol a) \<in> name ` set ds"
        then show ?thesis by auto
      qed
    qed
  qed
qed

text \<open>
  A number compared with itself: the computed delta is zero, or a NaN for an infinity or
  a NaN, and stays below every positive threshold; nothing raises.
\<close>

lemma same_float_delta:
  "0 < t \<Longrightarrow> \<not> float_ge (float_abs (float_mul (float_div (float_sub x x) x) (Finite 100))) t"
  by (cases x) (simp_all add: to_double_0)

lemma same_float_change: "0 < t \<Longrightarrow> \<not> float_ge (float_abs (float_sub x x)) t"
  by (cases x) (simp_all add: to_double_0)

lemma percent_change_same_int:
  "n \<noteq> 0 \<Longrightarrow> percent_change (Num (PyInt n)) (Num (PyInt n)) = Inr (PyFloat (Finite 0))"
  by (simp add: percent_change_def operand_def num_sub_def num_truediv_def num_mul_100
      to_double_0)

lemma number_or_absent_cases:
  "number_or_absent v \<Longrightarrow>
   \<not> truthy v \<or> (\<exists>n. v = Num (PyInt n) \<and> n \<noteq> 0) \<or> (\<exists>x. v = Num (PyFloat x) \<and> x \<noteq> Finite 0)"
  by (auto simp: number_or_absent_def truthy_def split: pyval.splits pynum.splits)

lemma check_price_change_same:
  assumes "0 < price_threshold self" and "number_or_absent (price d)"
  shows "check_price_change self nm d d = Inr None"
proof -
  from number_or_absent_cases [OF assms(2)]
  consider "\<not> truthy (price d)" | n where "price d = Num (PyInt n)" "n \<noteq> 0"
    | x where "price d = Num (PyFloat x)" "x \<noteq> Finite 0" by blast
  then show ?thesis
  proof cases
    case 1
    then show ?thesis by (simp add: check_price_change_falsy)
  next
    case 2
    with assms(1) show ?thesis
      by (simp add: check_price_change_def truthy_def percent_change_same_int num_abs_def
          num_ge_def)
  next
    case 3
    with assms(1) same_float_delta [of "price_threshold self" x] show ?thesis
      by (simp add: check_price_change_float Let_def del: float_ops)
  qed
qed

lemma check_tvl_change_same:
  assumes "0 < tvl_threshold self" and "number_or_absent (tvl d)"
  shows "check_tvl_change self nm d d = Inr None"
proof -
  from number_or_absent_cases [OF assms(2)]
  consider "\<not> truthy (tvl d)" | n where "tvl d = Num (PyInt n)" "n \<noteq> 0"
    | x where "tvl d = Num (PyFloat x)" "x \<noteq> Finite 0" by blast
  then show ?thesis
  proof cases
    case 1
    then show ?thesis by (simp add: check_tvl_change_falsy)
  next
    case 2
    with assms(1) show ?thesis
      by (simp add: check_tvl_change_def truthy_def percent_change_same_int num_abs_def
          num_ge_def)
  next
    case 3
    with assms(1) same_float_delta [of "tvl_threshold self" x] show ?thesis
      by (simp add: check_tvl_change_float Let_def del: float_ops)
  qed
qed

lemma check_apy_change_same:
  assumes "0 < apy_threshold self" and "number_or_absent (apy d)"
  shows "check_apy_change self nm d d = Inr None"
proof -
  from number_or_absent_cases [OF assms(2)]
  consider "\<not> truthy (apy d)" | n where "apy d = Num (PyInt n)" "n \<noteq> 0"
    | x where "apy d = Num (PyFloat x)" "x \<noteq> Finite 0" by blast
  then show ?thesis
  proof cases
    case 1
    then show ?thesis by (simp add: check_apy_change_falsy)
  next
    case 2
    with assms(1) show ?thesis
      by (simp add: check_apy_change_def truthy_def point_change_def operand_def num_sub_def
          num_abs_def num_ge_def)
  next
    case 3
    with assms(1) same_float_change [of "apy_threshold self" x] show ?thesis
      by (simp add: check_apy_change_float Let_def del: float_ops)
  qed
qed

lemma check_loop_unchanged:
  "0 < price_threshold self \<Longrightarrow> 0 < tvl_threshold self \<Longrightarrow> 0 < apy_threshold self \<Longrightarrow>
   \<forall>d \<in> set ds. numeric_metrics d \<and> (\<exists>n. name d = Some n \<and> previous_data self n = Some d) \<Longrightarrow>
   check_loop self ds acc = (Inr acc, self)"
  by (induction ds arbitrary: acc)
     (auto simp: check_price_change_same check_tvl_change_same check_apy_change_same
        append_alert_def numeric_metrics_def)



lemma update_previous_fields:
  "update_previous self ds = (r, self') \<Longrightarrow> self' = self\<lparr>previous_data := previous_data self'\<rparr>"
proof (induction ds arbitrary: self)
  case Nil
  then show ?case by auto
next
  case (Cons d ds)
  show ?case
  proof (cases "name d")
    case None
    with Cons.prems show ?thesis by auto
  next
    case (Some n)
    with Cons.prems
    have "update_previous (self\<lparr>previous_data := (previous_data self)(n \<mapsto> d)\<rparr>) ds = (r, self')"
      by simp
    from Cons.IH [OF this] show ?thesis by simp
  qed
qed

lemma update_previous_other:
  "Some n \<notin> name ` set ds \<Longrightarrow>
   previous_data (snd (update_previous self ds)) n = previous_data self n"
proof (induction ds arbitrary: self)
  case Nil
  then show ?case by simp
next
  case (Cons d ds)
  show ?case
  proof (cases "name d")
    case None
    then show ?thesis by simp
  next
    case (Some m)
    with Cons.prems have "m \<noteq> n" and "Some n \<notin> name ` set ds" by auto
    with Some Cons.IH [of "self\<lparr>previous_data := (previous_data self)(m \<mapsto> d)\<rparr>"]
    show ?thesis by simp
  qed
qed

lemma update_previous_named:
  "\<forall>d \<in> set ds. name d \<noteq> None \<Longrightarrow> d \<in> set ds \<Longrightarrow> name d = Some n \<Longrightarrow>
   \<exists>d' \<in> set ds. name d' = Some n \<and> previous_data (snd (update_previous self ds)) n = Some d'"
proof (induction ds arbitrary: self d)
  case Nil
  then show ?case by simp
next
  case (Cons x xs)
  then obtain m where m: "name x = Some m" by auto
  from Cons.prems(1) have rest: "\<forall>d \<in> set xs. name d \<noteq> None" by simp
  let ?self = "self\<lparr>previous_data := (previous_data self)(m \<mapsto> x)\<rparr>"
  have step: "update_previous self (x # xs) = update_previous ?self xs" using m by simp
  show ?case
  proof (cases "Some n \<in> name ` set xs")
    case True
    then obtain d2 where "d2 \<in> set xs" "name d2 = Some n" by force
    from Cons.IH [OF rest this, of ?self] show ?thesis unfolding step by auto
  next
    case False
    with Cons.prems(2,3) have "d = x" by force
    with m Cons.prems(3) have "m = n" by simp
    with update_previous_other [OF False, of ?self] m show ?thesis unfolding step by simp
  qed
qed

lemma update_previous_distinct:
  "\<forall>d \<in> set ds. name d \<noteq> None \<Longrightarrow> distinct (map name ds) \<Longrightarrow> d \<in> set ds \<Longrightarrow>
   name d = Some n \<Longrightarrow> previous_data (snd (update_previous self ds)) n = Some d"
proof -
  assume wf: "\<forall>d \<in> set ds. name d \<noteq> None" and dist: "distinct (map name ds)"
    and d: "d \<in> set ds" "name d = Some n"
  from update_previous_named [OF wf d, of self]
  obtain d' where d': "d' \<in> set ds" "name d' = Some n"
    "previous_data (snd (update_previous self ds)) n = Some d'" by blast
  from dist d d'(1,2) have "d' = d"
    by (metis distinct_map inj_on_def)
  with d'(3) show ?thesis by simp
qed

lemma update_previous_unchanged:
  "\<forall>d \<in> set ds. \<exists>n. name d = Some n \<and> previous_data self n = Some d \<Longrightarrow>
   update_previous self ds = (Inr (), self)"
proof (induction ds)
  case Nil
  then show ?case by simp
next
  case (Cons d ds)
  then obtain n where n: "name d = Some n" "previous_data self n = Some d" by auto
  then have "(previous_data self)(n \<mapsto> d) = previous_data self" by (simp add: map_upd_triv)
  with n Cons show ?case by simp
qed


lemma check_loop_config:
  assumes "check_loop self ds acc = (r, self')"
  shows "enabled self' = enabled self \<and> price_threshold self' = price_threshold self \<and>
     tvl_threshold self' = tvl_threshold self \<and> apy_threshold self' = apy_threshold self"
proof -
  from check_loop_fields [OF assms]
  obtain m where "self' = self\<lparr>previous_data := m\<rparr>" by blast
  then show ?thesis by simp
qed

lemma update_previous_config:
  assumes "update_previous self ds = (r, self')"
  shows "enabled self' = enabled self \<and> price_threshold self' = price_threshold self \<and>
     tvl_threshold self' = tvl_threshold self \<and> apy_threshold self' = apy_threshold self"
proof -
  from update_previous_fields [OF assms]
  obtain m where "self' = self\<lparr>previous_data := m\<rparr>" by blast
  then show ?thesis by simp
qed

section \<open>Properties of \<open>check_alerts\<close>\<close>

lemma check_alerts_returns:
  assumes "enabled self" and "check_alerts self batch = (Inr alerts, self2)"
  shows "\<exists>self1. check_loop self batch [] = (Inr alerts, self1) \<and>
     update_previous self1 batch = (Inr (), self2)"
  using assms by (auto simp: check_alerts_def split: prod.splits sum.splits)



lemmas check_defs =
  check_alerts_def check_price_change_float check_tvl_change_float check_apy_change_float
  check_price_change_falsy check_tvl_change_falsy check_apy_change_falsy truthy_def
  append_alert_def Let_def sample_arith

text \<open>
  C10. When alerting is disabled, \<open>check_alerts\<close> returns the empty list, raises nothing
  and leaves the instance, and with it \<open>previous_data\<close>, as it was, for every batch.
\<close>

theorem check_alerts_disabled:
  "\<not> enabled self \<Longrightarrow> check_alerts self current_data = (Inr [], self)"
  by (simp add: check_alerts_def)

theorem check_alerts_disabled_witness:
  "\<not> enabled default_manager \<and>
   check_alerts default_manager
     [\<lparr>name = Some ''aave'', price = Num (PyFloat (Finite 100)), tvl = PyNone, apy = Missing\<rparr>,
      \<lparr>name = None, price = Missing, tvl = Missing, apy = Missing\<rparr>]
   = (Inr [], default_manager)"
  using check_alerts_disabled [of default_manager]
  by (simp add: default_manager_def)

lemmas manager_defs =
  default_manager_def enabled_manager_def baseline_manager_def after_manager_def




text \<open>
  C8, as amended. In an enabled pass over a batch with identifiers unique within the
  batch, when the call returns its list of alerts (which it does only if every entry has
  its identifier and no metric check raises): for every protocol of the batch whose
  identifier has no entry in \<open>previous_data\<close> when \<open>check_alerts\<close> runs, no alert of the
  output is about that protocol, and its current snapshot is the recorded baseline after
  the call.
\<close>

theorem first_seen_protocol_is_baseline:
  assumes "enabled self"
    and "distinct (map name batch)"
    and "d \<in> set batch" and "name d = Some n"
    and "previous_data self n = None"
    and "check_alerts self batch = (Inr alerts, self')"
  shows "(\<forall>a \<in> set alerts. protocol a \<noteq> n) \<and> previous_data self' n = Some d"
proof -
  from check_alerts_returns [OF assms(1,6)]
  obtain self1 where
    l: "check_loop self batch [] = (Inr alerts, self1)" and
    u: "update_previous self1 batch = (Inr (), self')" by blast
  from check_loop_returns_named [OF l] have wf: "\<forall>d \<in> set batch. name d \<noteq> None" .
  have "protocol a \<noteq> n" if "a \<in> set alerts" for a
    using check_loop_protocols [OF assms(2) l that] assms(5) by auto
  moreover have "previous_data self' n = Some d"
    using update_previous_distinct [OF wf assms(2,3,4), of self1] u by simp
  ultimately show ?thesis by blast
qed

text \<open>
  C8 on a batch of a known protocol and a new one: the three alerts are about the known
  one, and the new one is recorded.
\<close>

theorem first_seen_protocol_is_baseline_witness:
  "enabled baseline_manager \<and> distinct (map name [aave_after, compound]) \<and>
   name compound = Some ''compound'' \<and>
   previous_data baseline_manager ''compound'' = None \<and>
   check_alerts baseline_manager [aave_after, compound]
     = (Inr [price_alert, tvl_alert, apy_alert],
        enabled_manager\<lparr>previous_data := [''aave'' \<mapsto> aave_after, ''compound'' \<mapsto> compound]\<rparr>) \<and>
   protocol price_alert \<noteq> ''compound'' \<and> protocol tvl_alert \<noteq> ''compound'' \<and>
   protocol apy_alert \<noteq> ''compound'' \<and>
   previous_data
     (enabled_manager\<lparr>previous_data := [''aave'' \<mapsto> aave_after, ''compound'' \<mapsto> compound]\<rparr>)
     ''compound'' = Some compound"
proof -
  have c: "check_alerts baseline_manager [aave_after, compound]
     = (Inr [price_alert, tvl_alert, apy_alert],
        enabled_manager\<lparr>previous_data := [''aave'' \<mapsto> aave_after, ''compound'' \<mapsto> compound]\<rparr>)"
    by (simp add: manager_defs aave_before_def aave_after_def compound_def price_alert_def
        tvl_alert_def apy_alert_def check_defs del: float_ops)
  have h: "enabled baseline_manager" "distinct (map name [aave_after, compound])"
    "compound \<in> set [aave_after, compound]" "name compound = Some ''compound''"
    "previous_data baseline_manager ''compound'' = None"
    by (simp_all add: manager_defs aave_after_def compound_def)
  from first_seen_protocol_is_baseline [OF h c] h c show ?thesis by simp
qed

text \<open>
  C8 as first stated fails when the call raises before the new protocol is reached: an
  entry without name ahead of it (\<open>KeyError\<close>), or a known protocol ahead of it whose
  tvl is a list (\<open>TypeError\<close> from \<open>curr['tvl'] - prev['tvl']\<close>); in both the new
  protocol \<open>compound\<close> is not recorded.
\<close>

theorem first_seen_not_recorded_after_raise:
  "enabled enabled_manager \<and> previous_data enabled_manager ''compound'' = None \<and>
   check_alerts enabled_manager [nameless, compound] = (Inl KeyError, enabled_manager) \<and>
   enabled tvl_list_manager \<and> previous_data tvl_list_manager ''compound'' = None \<and>
   check_alerts tvl_list_manager [tvl_list, compound] = (Inl TypeError, tvl_list_manager)"
  by (simp add: manager_defs tvl_list_manager_def tvl_list_def nameless_def compound_def
      check_alerts_def check_price_change_falsy check_tvl_change_def truthy_def
      percent_change_def operand_def)

text \<open>
  C9, as amended. When the three thresholds are positive, for every batch with identifiers
  unique within the batch and metric values that are absent, \<open>None\<close> or numbers, and for
  which a first call of \<open>check_alerts\<close> returns: a second call with the identical batch
  returns no alert and leaves the instance as the first call left it. When alerting is
  enabled, the first call has recorded every snapshot of the batch as the baseline of its
  protocol, and the deltas of the second call are zero.
\<close>

theorem repeated_batch_yields_no_alerts:
  assumes "0 < price_threshold self" and "0 < tvl_threshold self" and "0 < apy_threshold self"
    and "distinct (map name batch)"
    and "\<forall>d \<in> set batch. numeric_metrics d"
    and "check_alerts self batch = (Inr alerts, self1)"
  shows "check_alerts self1 batch = (Inr [], self1) \<and>
     (enabled self \<longrightarrow>
        (\<forall>d \<in> set batch. \<forall>n. name d = Some n \<longrightarrow> previous_data self1 n = Some d))"
proof (cases "enabled self")
  case False
  with assms(6) have "self1 = self" by (simp add: check_alerts_def)
  with False show ?thesis by (simp add: check_alerts_def)
next
  case True
  from check_alerts_returns [OF True assms(6)]
  obtain self0 where
    l: "check_loop self batch [] = (Inr alerts, self0)" and
    u: "update_previous self0 batch = (Inr (), self1)" by blast
  from check_loop_returns_named [OF l] have wf: "\<forall>d \<in> set batch. name d \<noteq> None" .
  from check_loop_config [OF l] update_previous_config [OF u] True assms(1,2,3)
  have en: "enabled self1" and t: "0 < price_threshold self1" "0 < tvl_threshold self1"
      "0 < apy_threshold self1"
    by simp_all
  have rec: "previous_data self1 n = Some d" if "d \<in> set batch" "name d = Some n" for d n
    using update_previous_distinct [OF wf assms(4) that, of self0] u by simp
  have known: "\<forall>d \<in> set batch. \<exists>n. name d = Some n \<and> previous_data self1 n = Some d"
  proof
    fix d assume d: "d \<in> set batch"
    with wf obtain n where "name d = Some n" by auto
    with rec [OF d] show "\<exists>n. name d = Some n \<and> previous_data self1 n = Some d" by auto
  qed
  with assms(5)
  have both: "\<forall>d \<in> set batch. numeric_metrics d \<and>
      (\<exists>n. name d = Some n \<and> previous_data self1 n = Some d)"
    by blast
  have "check_loop self1 batch [] = (Inr [], self1)"
    by (rule check_loop_unchanged [OF t both])
  moreover have "update_previous self1 batch = (Inr (), self1)"
    by (rule update_previous_unchanged [OF known])
  ultimately have "check_alerts self1 batch = (Inr [], self1)"
    using en by (simp add: check_alerts_def)
  with rec show ?thesis by blast
qed

text \<open>
  C9 on the sample protocol: the first pass alerts three times, the second not at all.
\<close>

theorem repeated_batch_yields_no_alerts_witness:
  "0 < price_threshold baseline_manager \<and> 0 < tvl_threshold baseline_manager \<and>
   0 < apy_threshold baseline_manager \<and> distinct (map name [aave_after]) \<and>
   numeric_metrics aave_after \<and> enabled baseline_manager \<and>
   check_alerts baseline_manager [aave_after]
     = (Inr [price_alert, tvl_alert, apy_alert], after_manager) \<and>
   previous_data after_manager ''aave'' = Some aave_after \<and>
   check_alerts after_manager [aave_after] = (Inr [], after_manager)"
proof -
  have h: "0 < price_threshold baseline_manager" "0 < tvl_threshold baseline_manager"
      "0 < apy_threshold baseline_manager" "distinct (map name [aave_after])"
      "\<forall>d \<in> set [aave_after]. numeric_metrics d"
    by (simp_all add: manager_defs aave_after_def numeric_metrics_def number_or_absent_def)
  have first: "check_alerts baseline_manager [aave_after]
      = (Inr [price_alert, tvl_alert, apy_alert], after_manager)"
    by (simp add: manager_defs aave_before_def aave_after_def price_alert_def tvl_alert_def
        apy_alert_def check_defs del: float_ops)
  from repeated_batch_yields_no_alerts [OF h first]
  have second: "check_alerts after_manager [aave_after] = (Inr [], after_manager)" by simp
  have "numeric_metrics aave_after" "enabled baseline_manager"
    "previous_data after_manager ''aave'' = Some aave_after"
    by (simp_all add: manager_defs aave_after_def numeric_metrics_def number_or_absent_def)
  with h first second show ?thesis by simp
qed

text \<open>
  C9 as first stated fails for a threshold of 0: the delta of the second call is 0, and
  \<open>abs(0.0) >= 0\<close> fires an apy alert. It fails for a metric value that is not a number:
  a tvl that is a list is recorded by the first call, and the second call raises
  \<open>TypeError\<close> on \<open>curr['tvl'] - prev['tvl']\<close>. And it fails for a batch that names a
  protocol twice with different snapshots: the second call compares the first entry with
  the baseline left by the last.
\<close>

theorem repeated_batch_alerts_at_zero_threshold:
  "check_alerts zero_threshold_manager [apy_low] = (Inr [], zero_threshold_baseline) \<and>
   check_alerts zero_threshold_baseline [apy_low]
     = (Inr [no_change_alert], zero_threshold_baseline) \<and>
   check_alerts enabled_manager [tvl_list] = (Inr [], tvl_list_manager) \<and>
   check_alerts tvl_list_manager [tvl_list] = (Inl TypeError, tvl_list_manager) \<and>
   check_alerts enabled_manager [apy_low, apy_high] = (Inr [apy_alert], apy_high_manager) \<and>
   check_alerts apy_high_manager [apy_low, apy_high] = (Inr [apy_drop_alert], apy_high_manager)"
  by (simp add: manager_defs zero_threshold_manager_def zero_threshold_baseline_def
      tvl_list_manager_def apy_high_manager_def tvl_list_def apy_low_def apy_high_def
      no_change_alert_def apy_alert_def apy_drop_alert_def check_alerts_def
      check_price_change_falsy check_apy_change_falsy check_apy_change_float
      check_tvl_change_def percent_change_def operand_def truthy_def append_alert_def Let_def
      delta_apy_sample delta_apy_drop delta_apy_same same_float_change del: float_ops)

section \<open>Properties of the webhook channel and of \<open>send_alerts\<close>\<close>

lemma discord_loop_all_ok:
  "(\<forall>j < length alerts. post (i + j) = Status_ok) \<Longrightarrow> discord_loop post i alerts = (True, alerts)"
proof (induction alerts arbitrary: i)
  case Nil
  then show ?case by simp
next
  case (Cons a rest)
  have "post i = Status_ok" using Cons.prems [rule_format, of 0] by simp
  moreover have "\<forall>j < length rest. post (Suc i + j) = Status_ok"
    using Cons.prems by (auto dest: spec [of _ "Suc j" for j])
  ultimately show ?case using Cons.IH [of "Suc i"] by simp
qed

lemma discord_loop_first_failure:
  "k < length alerts \<Longrightarrow> post (i + k) \<noteq> Status_ok \<Longrightarrow> (\<forall>j < k. post (i + j) = Status_ok) \<Longrightarrow>
   discord_loop post i alerts = (False, take (Suc k) alerts)"
proof (induction alerts arbitrary: i k)
  case Nil
  then show ?case by simp
next
  case (Cons a rest)
  show ?case
  proof (cases k)
    case 0
    with Cons.prems show ?thesis by (cases "post i") simp_all
  next
    case (Suc k')
    have ok: "post i = Status_ok" using Cons.prems(3) Suc by (auto dest: spec [of _ 0])
    have "k' < length rest" using Cons.prems(1) Suc by simp
    moreover have "post (Suc i + k') \<noteq> Status_ok" using Cons.prems(2) Suc by simp
    moreover have "\<forall>j < k'. post (Suc i + j) = Status_ok"
    proof (intro allI impI)
      fix j assume "j < k'"
      then have "Suc j < k" using Suc by simp
      then have "post (i + Suc j) = Status_ok" using Cons.prems(3) by blast
      then show "post (Suc i + j) = Status_ok" by simp
    qed
    ultimately have "discord_loop post (Suc i) rest = (False, take (Suc k') rest)"
      by (rule Cons.IH)
    with ok Suc show ?thesis by simp
  qed
qed

lemma discord_loop_ok_iff:
  "fst (discord_loop post i alerts) \<longleftrightarrow> (\<forall>j < length alerts. post (i + j) = Status_ok)"
proof (induction alerts arbitrary: i)
  case Nil
  then show ?case by simp
next
  case (Cons a rest)
  have split: "(\<forall>j < length (a # rest). post (i + j) = Status_ok) \<longleftrightarrow>
     post i = Status_ok \<and> (\<forall>j < length rest. post (Suc i + j) = Status_ok)"
    (is "?L \<longleftrightarrow> ?R")
  proof
    assume l: ?L
    then have "post (i + 0) = Status_ok" by (metis length_Cons zero_less_Suc)
    moreover have "\<forall>j < length rest. post (Suc i + j) = Status_ok"
    proof (intro allI impI)
      fix j assume "j < length rest"
      then have "Suc j < length (a # rest)" by simp
      with l have "post (i + Suc j) = Status_ok" by blast
      then show "post (Suc i + j) = Status_ok" by simp
    qed
    ultimately show ?R by simp
  next
    assume r: ?R
    show ?L
    proof (intro allI impI)
      fix j assume "j < length (a # rest)"
      then show "post (i + j) = Status_ok" using r by (cases j) auto
    qed
  qed
  show ?case
    unfolding split using Cons.IH [of "Suc i"]
    by (cases "post i") (auto split: prod.splits)
qed

text \<open>
  C3, as amended. The webhook channel issues one POST per alert, in order, as long as
  the POSTs succeed: when all succeed, every alert of the batch is posted and the channel
  reports success; the first POST that fails is the last one issued, the alerts after it
  are not posted, and the channel reports failure.
\<close>

theorem webhook_stops_at_first_failure:
  "((\<forall>j < length alerts. post j = Status_ok) \<longrightarrow>
      send_discord_alerts post alerts = (True, alerts)) \<and>
   (k < length alerts \<and> post k \<noteq> Status_ok \<and> (\<forall>j < k. post j = Status_ok) \<longrightarrow>
      send_discord_alerts post alerts = (False, take (Suc k) alerts))"
  using discord_loop_all_ok [of alerts post 0] discord_loop_first_failure [of k alerts post 0]
  by (simp add: send_discord_alerts_def)


text \<open>
  C3 on three alerts: when the second POST raises, two POSTs are issued; when none fails,
  three.
\<close>

theorem webhook_stops_at_first_failure_witness:
  "(1::nat) < length [price_alert, tvl_alert, apy_alert] \<and>
   second_fails 0 = Status_ok \<and> second_fails 1 \<noteq> Status_ok \<and>
   send_discord_alerts second_fails [price_alert, tvl_alert, apy_alert]
     = (False, [price_alert, tvl_alert]) \<and>
   send_discord_alerts (\<lambda>k. Status_ok) [price_alert, tvl_alert, apy_alert]
     = (True, [price_alert, tvl_alert, apy_alert])"
  using webhook_stops_at_first_failure [of "[price_alert, tvl_alert, apy_alert]" second_fails 1]
    webhook_stops_at_first_failure [of "[price_alert, tvl_alert, apy_alert]" "\<lambda>k. Status_ok" 0]
  by (simp add: second_fails_def)

text \<open>
  C3 as first stated fails: with two alerts and a webhook that rejects the first POST
  only, the POST for the second alert, which would succeed, is never issued.
\<close>

theorem webhook_failure_aborts_batch:
  "send_discord_alerts first_fails [price_alert, tvl_alert] = (False, [price_alert]) \<and>
   first_fails 1 = Status_ok"
  by (simp add: send_discord_alerts_def first_fails_def)

lemma send_discord_alerts_ok_iff:
  "fst (send_discord_alerts post alerts) \<longleftrightarrow> (\<forall>j < length alerts. post j = Status_ok)"
  using discord_loop_ok_iff [of post 0 alerts] by (simp add: send_discord_alerts_def)

lemma send_email_alerts_ok_iff:
  "email self \<and> email_to self \<noteq> [] \<Longrightarrow>
   fst (send_email_alerts self smtp_ok alerts) \<longleftrightarrow> email_delivers self smtp_ok"
  by (simp add: send_email_alerts_def email_delivers_def)

lemma count_send_alerts:
  "count (send_alerts self post smtp_ok alerts) =
     (if alerts = [] then 0
      else (if console self then length alerts else 0) +
           (if discord_webhook self \<and> discord_webhook_url self \<noteq> [] \<and>
               fst (send_discord_alerts post alerts) then length alerts else 0) +
           (if email self \<and> email_to self \<noteq> [] \<and>
               fst (send_email_alerts self smtp_ok alerts) then length alerts else 0))"
  by (auto simp: send_alerts_def Let_def send_console_alerts_def split: prod.splits)

text \<open>
  C6. The count returned by \<open>send_alerts\<close> is the number of alerts times the number of
  channels that are enabled and delivered the whole batch. With the console on, the
  webhook on and every POST failing, and the email channel delivering nothing, the count
  is the number of alerts. \<open>send_alerts\<close> is total: a channel failure is a value, not
  an exception.
\<close>

theorem delivered_count:
  "count (send_alerts self post smtp_ok alerts)
     = length alerts * successful_channels self post smtp_ok alerts \<and>
   (console self \<and> webhook_enabled self \<and> (\<forall>k. post k \<noteq> Status_ok) \<and>
    \<not> email_delivers self smtp_ok \<longrightarrow>
      count (send_alerts self post smtp_ok alerts) = length alerts)"
proof -
  have e: "(email self \<and> email_to self \<noteq> [] \<and> fst (send_email_alerts self smtp_ok alerts))
      \<longleftrightarrow> email_delivers self smtp_ok"
    using send_email_alerts_ok_iff [of self smtp_ok alerts]
    by (auto simp: email_delivers_def)
  have w: "(discord_webhook self \<and> discord_webhook_url self \<noteq> [] \<and>
       fst (send_discord_alerts post alerts)) \<longleftrightarrow> webhook_delivers self post alerts"
    by (simp add: send_discord_alerts_ok_iff webhook_delivers_def webhook_enabled_def)
  have c: "count (send_alerts self post smtp_ok alerts) =
     (if alerts = [] then 0
      else (if console_delivers self then length alerts else 0) +
           (if webhook_delivers self post alerts then length alerts else 0) +
           (if email_delivers self smtp_ok then length alerts else 0))"
    unfolding count_send_alerts e w console_delivers_def ..
  have first: "count (send_alerts self post smtp_ok alerts)
     = length alerts * successful_channels self post smtp_ok alerts"
    unfolding c successful_channels_def by (simp add: algebra_simps)
  have "count (send_alerts self post smtp_ok alerts) = length alerts"
    if h: "console self" "webhook_enabled self" "\<forall>k. post k \<noteq> Status_ok"
      "\<not> email_delivers self smtp_ok"
  proof (cases "alerts = []")
    case True
    show ?thesis unfolding c using True by simp
  next
    case False
    then have "\<not> webhook_delivers self post alerts"
      using h(3) by (auto simp: webhook_delivers_def)
    with h False show ?thesis unfolding c by (simp add: console_delivers_def)
  qed
  with first show ?thesis by blast
qed

text \<open>
  C6 on three alerts, console and webhook enabled, every POST rejected: the count is 3.
\<close>

theorem delivered_count_witness:
  "console webhook_manager \<and> webhook_enabled webhook_manager \<and>
   (\<forall>k. always_failing k \<noteq> Status_ok) \<and>
   \<not> email_delivers webhook_manager True \<and>
   count (send_alerts webhook_manager always_failing True [price_alert, tvl_alert, apy_alert]) = 3 \<and>
   successful_channels webhook_manager always_failing True [price_alert, tvl_alert, apy_alert] = 1"
  using delivered_count
    [of webhook_manager always_failing True "[price_alert, tvl_alert, apy_alert]"]
  by (simp add: webhook_manager_def default_manager_def webhook_enabled_def
      email_delivers_def always_failing_def)

section \<open>Properties of \<open>_make_request\<close>\<close>

lemma make_request_retries:
  "(\<forall>j < n. upstream (k + j) = Rate_limited) \<Longrightarrow> upstream (k + n) \<noteq> Rate_limited \<Longrightarrow>
   n < depth \<Longrightarrow>
   make_request depth upstream k c = (Inr (answer (upstream (k + n))), Suc (k + n), c + n)"
proof (induction n arbitrary: depth k c)
  case 0
  then obtain depth' where "depth = Suc depth'" by (cases depth) auto
  with 0 show ?case by (simp add: answer_def split: response.splits)
next
  case (Suc n)
  from Suc.prems(3) obtain depth' where depth: "depth = Suc depth'" "n < depth'"
    by (cases depth) auto
  have first: "upstream k = Rate_limited" using Suc.prems(1) by (auto dest: spec [of _ 0])
  have "\<forall>j < n. upstream (Suc k + j) = Rate_limited"
  proof (intro allI impI)
    fix j assume "j < n"
    then have "upstream (k + Suc j) = Rate_limited" using Suc.prems(1) by (metis Suc_mono)
    then show "upstream (Suc k + j) = Rate_limited" by simp
  qed
  moreover have "upstream (Suc k + n) \<noteq> Rate_limited" using Suc.prems(2) by simp
  ultimately have "make_request depth' upstream (Suc k) (Suc c)
      = (Inr (answer (upstream (Suc k + n))), Suc (Suc k + n), Suc c + n)"
    using depth(2) by (rule Suc.IH)
  with first depth(1) show ?case by simp
qed

lemma make_request_exhausted:
  "(\<forall>j < depth. upstream (k + j) = Rate_limited) \<Longrightarrow>
   make_request depth upstream k c = (Inl RecursionError, k + depth, c + depth)"
proof (induction depth arbitrary: k c)
  case 0
  then show ?case by simp
next
  case (Suc depth)
  have first: "upstream k = Rate_limited" using Suc.prems by (auto dest: spec [of _ 0])
  have "\<forall>j < depth. upstream (Suc k + j) = Rate_limited"
  proof (intro allI impI)
    fix j assume "j < depth"
    then have "upstream (k + Suc j) = Rate_limited" using Suc.prems by (metis Suc_mono)
    then show "upstream (Suc k + j) = Rate_limited" by simp
  qed
  from Suc.IH [OF this, of "Suc c"] first show ?case by simp
qed

text \<open>
  C4, as amended. Every 429 answer triggers a cooldown and a retry of the same request,
  and so does every further 429: after \<open>n\<close> answers 429 in a row followed by another
  answer, the call returns what that answer gives, after \<open>n\<close> cooldowns and
  \<open>n + 1\<close> GETs, as long as the \<open>n\<close> nested calls fit within the recursion limit of
  the interpreter. The code sets no bound of its own on the retries: against an upstream
  that keeps answering 429 they end only at the recursion limit, after one cooldown per
  activation, with a \<open>RecursionError\<close> that escapes the call.
\<close>

theorem rate_limit_retries_until_answered:
  "((\<forall>j < n. upstream (k + j) = Rate_limited) \<and> upstream (k + n) \<noteq> Rate_limited \<and> n < depth \<longrightarrow>
      make_request depth upstream k c = (Inr (answer (upstream (k + n))), Suc (k + n), c + n)) \<and>
   ((\<forall>j < depth. upstream (k + j) = Rate_limited) \<longrightarrow>
      make_request depth upstream k c = (Inl RecursionError, k + depth, c + depth))"
  using make_request_retries [of n upstream k depth c] make_request_exhausted [of depth upstream k c]
  by blast

text \<open>
  C4 on an upstream that answers 429 once, and on one that answers 429 for ever, with
  room for 988 activations.
\<close>

theorem rate_limit_retries_until_answered_witness:
  "limited_once 0 = Rate_limited \<and> limited_once 1 \<noteq> Rate_limited \<and>
   make_request 988 limited_once 0 0 = (Inr (Some ''body''), 2, 1) \<and>
   (\<forall>j. limited_forever j = Rate_limited) \<and>
   make_request 988 limited_forever 0 0 = (Inl RecursionError, 988, 988)"
  using rate_limit_retries_until_answered [of 1 limited_once 0 988 0]
    rate_limit_retries_until_answered [of 0 limited_forever 0 988 0]
  by (simp add: limited_once_def limited_forever_def answer_def)

text \<open>
  C4 as first stated fails: two 429 answers in a row make one call cool down and retry
  twice before it returns the body.
\<close>

theorem rate_limit_two_retries:
  "limited_twice 0 = Rate_limited \<and> limited_twice 1 = Rate_limited \<and>
   make_request 988 limited_twice 0 0 = (Inr (Some ''body''), 3, 2)"
  using make_request_retries [of 2 limited_twice 0 988 0]
  by (simp add: limited_twice_def answer_def)

end
